theory Spec2Isabelle
  imports Main "HOL-Library.Word"
begin

section \<open>Strings: the library calls of \<^verbatim>\<open>main.go\<close>\<close>

text \<open>
  Go strings and byte slices are sequences of bytes; both are modelled as \<open>string\<close>
  (a list of 8-bit characters). Every separator and replacement that \<^verbatim>\<open>main.go\<close>
  passes to \<^verbatim>\<open>strings.Split\<close> and \<^verbatim>\<open>strings.Replace\<close> is a one-byte string, so
  the models take a single character.
\<close>

type_synonym bytes = string

text \<open>\<^verbatim>\<open>strings.Split(s, sep)\<close>: the substrings between the separators; a string
  without separator (also the empty string) gives a one-element list.\<close>

fun Split :: "string \<Rightarrow> char \<Rightarrow> string list" where
  "Split [] sep = [[]]"
| "Split (c # cs) sep =
     (if c = sep then [] # Split cs sep
      else (case Split cs sep of
              [] \<Rightarrow> [[c]]
            | w # ws \<Rightarrow> (c # w) # ws))"

text \<open>\<^verbatim>\<open>strings.Replace(s, old, new, -1)\<close>: every occurrence replaced.\<close>

fun Replace :: "string \<Rightarrow> char \<Rightarrow> char \<Rightarrow> string" where
  "Replace [] old new = []"
| "Replace (c # cs) old new = (if c = old then new else c) # Replace cs old new"

section \<open>Identity Resolver: the derived DNS names\<close>

text \<open>\<^verbatim>\<open>fmt.Sprintf("%s.%s.svc.%s", name, namespace, domain)\<close>\<close>

definition serviceDomainName :: "string \<Rightarrow> string \<Rightarrow> string \<Rightarrow> string" where
  "serviceDomainName name ns domain = name @ ''.'' @ ns @ ''.svc.'' @ domain"

definition podDomainName :: "string \<Rightarrow> string \<Rightarrow> string \<Rightarrow> string" where
  "podDomainName ip ns domain =
     Replace ip (CHR ''.'') (CHR ''-'') @ ''.'' @ ns @ ''.pod.'' @ domain"

definition podHeadlessDomainName :: "string \<Rightarrow> string \<Rightarrow> string \<Rightarrow> string \<Rightarrow> string" where
  "podHeadlessDomainName h sd ns domain =
     (if h = [] \<or> sd = [] then []
      else h @ ''.'' @ sd @ ''.'' @ ns @ ''.svc.'' @ domain)"

text \<open>\<^verbatim>\<open>defaultDNSNames\<close> reads the package variable \<^verbatim>\<open>headlessNameAsCN\<close>; the model
  takes it as its first argument.\<close>

definition defaultDNSNames ::
  "bool \<Rightarrow> string \<Rightarrow> string \<Rightarrow> string \<Rightarrow> string \<Rightarrow> string \<Rightarrow> string list" where
  "defaultDNSNames asCN ip h sd ns domain =
     (let names = [podDomainName ip ns domain] in
      if h \<noteq> [] \<and> sd \<noteq> [] then
        (let headlessName = podHeadlessDomainName h sd ns domain in
         if asCN then [headlessName] @ names else names @ [headlessName])
      else names)"


section \<open>Data: configuration, control-plane objects, library calls\<close>

text \<open>The package-level variables set by the flags (lines 39-58).\<close>

record config =
  additionalDNSNames :: string
  certDir :: string
  clusterDomain :: string
  headlessNameAsCN :: bool
  hostname :: string
  namespace :: string
  pkcs8Format :: bool
  podIP :: string
  podName :: string
  serviceIPs :: string
  serviceNames :: string
  subdomain :: string
  labels :: string
  secretName :: string
  keysize :: int
  countries :: string
  organizations :: string
  organizationalUnits :: string

text \<open>\<^verbatim>\<open>net.IP\<close> is a byte slice; \<^verbatim>\<open>nil\<close> is the empty list. \<^verbatim>\<open>To4\<close> and \<^verbatim>\<open>To16\<close>
  are the standard library's: a 4-byte address, or the 4-byte tail of a 16-byte
  IPv4-mapped address; a 16-byte address, or a 4-byte one behind the IPv4-in-IPv6
  prefix; \<^verbatim>\<open>nil\<close> otherwise.\<close>

type_synonym IP = "8 word list"

definition v4InV6Prefix :: IP where
  "v4InV6Prefix = [0, 0, 0, 0, 0, 0, 0, 0, 0, 0, 255, 255]"

definition To4 :: "IP \<Rightarrow> IP" where
  "To4 ip =
     (if length ip = 4 then ip
      else if length ip = 16 \<and> take 12 ip = v4InV6Prefix then drop 12 ip
      else [])"

definition To16 :: "IP \<Rightarrow> IP" where
  "To16 ip =
     (if length ip = 4 then v4InV6Prefix @ ip
      else if length ip = 16 then ip
      else [])"

text \<open>The secret object (\<^verbatim>\<open>apiv1.Secret\<close>): metadata, the binary data map, the
  write-only string data map and the type.\<close>

record objectMeta =
  metaName :: string
  metaNamespace :: string
  metaLabels :: "string \<rightharpoonup> string"

record secret =
  Metadata :: objectMeta
  Data :: "string \<rightharpoonup> bytes"
  StringData :: "string \<rightharpoonup> string"
  secretType :: string

text \<open>The template handed to \<^verbatim>\<open>x509.CreateCertificateRequest\<close> (lines 236-246); a
  \<^verbatim>\<open>nil\<close> slice is the empty list.\<close>

datatype signatureAlgorithm = SHA256WithRSA

record certificateRequest =
  CommonName :: string
  Country :: "string list"
  Organization :: "string list"
  OrganizationalUnit :: "string list"
  SignatureAlgorithm :: signatureAlgorithm
  DNSNames :: "string list"
  IPAddresses :: "IP list"

text \<open>The signing-request object submitted to the control plane (lines 266-276).\<close>

record certificateSigningRequest =
  csrName :: string
  csrLabels :: "string \<rightharpoonup> string"
  Groups :: "string list"
  Request :: bytes
  KeyUsage :: "string list"

text \<open>What the poll loop reads of a fetched signing request: the status' conditions
  and certificate. A request without status has no conditions. The condition's type is
  a pointer to a string (\<^verbatim>\<open>*string\<close>); \<open>None\<close> is the \<^verbatim>\<open>nil\<close> pointer.\<close>

record condition =
  condType :: "string option"

record csrStatus =
  Conditions :: "condition list"
  Certificate :: bytes

type_synonym privateKey = nat

text \<open>Every effect of the program on the world outside it, in the order it happens.
  Log lines are not recorded.\<close>

datatype event =
    CallGetSecret string string
  | CallGenerateKey int
  | CallWriteFile string bytes nat
  | CallCreateCertificateRequest certificateRequest privateKey
  | CallDeleteCSR string
  | CallGetCSR string
  | CallCreateCSR certificateSigningRequest
  | CallReadFile string
  | CallUpdateSecret secret
  | CallSleep nat

text \<open>How a run ends: \<^verbatim>\<open>os.Exit\<close>, \<^verbatim>\<open>log.Fatal\<close>, a panic, or not at all within
  the retries allowed (\<open>Waiting\<close>: the run is inside a retry loop).\<close>

datatype fatal =
    ClientCreateFailed
  | BothSinks
  | KeyGenFailed
  | WriteFailed string
  | InvalidPodIP
  | InvalidServiceIP
  | CertRequestFailed
  | CreateCSRFailed

datatype panic = PKCS8Failed | IndexOutOfRange | NilDereference | ReadCAFailed

datatype outcome = Exit nat | Fatal fatal | Panic panic | Waiting

text \<open>The world the program runs in: the results of the library and control-plane
  calls. The answers to the two calls that are retried are indexed by the number of the
  call (\<open>None\<close> is an error return); the cryptographic and encoding primitives are
  functions of their arguments. A \<open>bool\<close> says whether the call succeeded, \<open>None\<close>
  that it returned an error; \<^verbatim>\<open>ParseIP\<close> returns \<^verbatim>\<open>nil\<close> (the empty list) for a literal
  that is neither IPv4 nor IPv6. The results of the two deletes and of the secret update
  are not part of the world: the program never looks at them.\<close>

record env =
  NewInClusterClient :: bool
  GetSecret :: "nat \<Rightarrow> secret option"
  GenerateKey :: "int \<Rightarrow> privateKey option"
  ConvertPrivateKeyToPKCS8 :: "privateKey \<Rightarrow> bytes option"
  MarshalPKCS1PrivateKey :: "privateKey \<Rightarrow> bytes"
  EncodeToMemory :: "string \<Rightarrow> bytes \<Rightarrow> bytes"
  Join :: "string \<Rightarrow> string \<Rightarrow> string"
  WriteFile :: "string \<Rightarrow> bytes \<Rightarrow> nat \<Rightarrow> bool"
  ParseIP :: "string \<Rightarrow> IP"
  CreateCertificateRequest :: "certificateRequest \<Rightarrow> privateKey \<Rightarrow> bytes option"
  GetCertificateSigningRequest :: "nat \<Rightarrow> csrStatus option"
  CreateCertificateSigningRequest :: "certificateSigningRequest \<Rightarrow> bool"
  ReadFile :: "string \<Rightarrow> bytes option"

section \<open>The run as a sequence of stages\<close>

text \<open>A stage returns the events it caused and either the outcome that ended the run
  (\<open>Inl\<close>) or the value the next stage goes on with (\<open>Inr\<close>).\<close>

type_synonym 'a run = "event list \<times> (outcome + 'a)"

definition after :: "event list \<Rightarrow> 'a run \<Rightarrow> 'a run" where
  "after t r = (case r of (t', x) \<Rightarrow> (t @ t', x))"

definition andThen :: "'a run \<Rightarrow> ('a \<Rightarrow> 'b run) \<Rightarrow> 'b run" where
  "andThen r f =
     (case r of
        (t, Inl out) \<Rightarrow> (t, Inl out)
      | (t, Inr a) \<Rightarrow> after t (f a))"

subsection \<open>Client and sink selection (lines 83-94)\<close>

definition startup :: "config \<Rightarrow> env \<Rightarrow> string run" where
  "startup cfg env =
     (if \<not> NewInClusterClient env then ([], Inl (Fatal ClientCreateFailed))
      else if certDir cfg \<noteq> [] \<and> secretName cfg \<noteq> [] then ([], Inl (Fatal BothSinks))
      else ([], Inr (if certDir cfg = [] then ''/etc/tls'' else certDir cfg)))"

subsection \<open>Secret Preflight Gate (lines 96-120)\<close>

text \<open>The inner loop over the three file names: the first one that is not a key of
  the secret's data, if any. The outer loop fetches the secret until a fetch succeeds;
  \<open>i\<close> is the number of the next fetch, and one unit of fuel is one iteration: a loop
  still going when the fuel is used up gives \<open>Waiting\<close>.\<close>

fun missingFile :: "string list \<Rightarrow> (string \<rightharpoonup> bytes) \<Rightarrow> string option" where
  "missingFile [] secretData = None"
| "missingFile (file # files) secretData =
     (case secretData file of
        None \<Rightarrow> Some file
      | Some v \<Rightarrow> missingFile files secretData)"

definition tlsFiles :: "string list" where
  "tlsFiles = [''tls.key'', ''tls.crt'', ''ca.crt'']"

fun secretLoop :: "nat \<Rightarrow> config \<Rightarrow> env \<Rightarrow> nat \<Rightarrow> secret run" where
  "secretLoop 0 cfg env i = ([], Inl Waiting)"
| "secretLoop (Suc fuel) cfg env i =
     (case GetSecret env i of
        None \<Rightarrow>
          after [CallGetSecret (secretName cfg) (namespace cfg), CallSleep 5]
            (secretLoop fuel cfg env (Suc i))
      | Some ks \<Rightarrow>
          (case missingFile tlsFiles (Data ks) of
             Some file \<Rightarrow> ([CallGetSecret (secretName cfg) (namespace cfg)], Inr ks)
           | None \<Rightarrow> ([CallGetSecret (secretName cfg) (namespace cfg)], Inl (Exit 0))))"

definition preflight :: "nat \<Rightarrow> config \<Rightarrow> env \<Rightarrow> secret option run" where
  "preflight fuel cfg env =
     (if secretName cfg \<noteq> [] then
        andThen (secretLoop fuel cfg env 0) (\<lambda>ks. ([], Inr (Some ks)))
      else ([], Inr None))"

subsection \<open>Key generation and encoding (lines 124-154)\<close>

text \<open>The file mode \<^verbatim>\<open>0644\<close> is 420.\<close>

definition generateKey :: "config \<Rightarrow> env \<Rightarrow> string \<Rightarrow> (privateKey \<times> bytes) run" where
  "generateKey cfg env dir =
     (case GenerateKey env (keysize cfg) of
        None \<Rightarrow> ([CallGenerateKey (keysize cfg)], Inl (Fatal KeyGenFailed))
      | Some key \<Rightarrow>
          after [CallGenerateKey (keysize cfg)]
           (case (if pkcs8Format cfg
                  then map_option (Pair ''PRIVATE KEY'') (ConvertPrivateKeyToPKCS8 env key)
                  else Some (''RSA PRIVATE KEY'', MarshalPKCS1PrivateKey env key)) of
              None \<Rightarrow> ([], Inl (Panic PKCS8Failed))
            | Some (ptype, pkey) \<Rightarrow>
                (let pemKeyBytes = EncodeToMemory env ptype pkey in
                 if secretName cfg = [] then
                   (let keyFile = Join env dir ''tls.key'' in
                    if WriteFile env keyFile pemKeyBytes 420
                    then ([CallWriteFile keyFile pemKeyBytes 420], Inr (key, pemKeyBytes))
                    else ([CallWriteFile keyFile pemKeyBytes 420],
                          Inl (Fatal (WriteFailed keyFile))))
                 else ([], Inr (key, pemKeyBytes)))))"

subsection \<open>Labels (lines 157-169)\<close>

text \<open>\<^verbatim>\<open>label, key := s[0], s[1]\<close> panics with an index out of range when the split
  has fewer than two elements.\<close>

fun labelsLoop :: "string list \<Rightarrow> (string \<rightharpoonup> string) \<Rightarrow> panic + (string \<rightharpoonup> string)" where
  "labelsLoop [] labelsMap = Inr labelsMap"
| "labelsLoop (n # ns) labelsMap =
     (if n = [] then labelsLoop ns labelsMap
      else if length (Split n (CHR ''='')) < 2 then Inl IndexOutOfRange
      else if Split n (CHR ''='') ! 0 = [] then labelsLoop ns labelsMap
      else labelsLoop ns
             (labelsMap(Split n (CHR ''='') ! 0 \<mapsto> Split n (CHR ''='') ! 1)))"

definition gatherLabels :: "config \<Rightarrow> (string \<rightharpoonup> string) run" where
  "gatherLabels cfg =
     (case labelsLoop (Split (labels cfg) (CHR '','')) Map.empty of
        Inl p \<Rightarrow> ([], Inl (Panic p))
      | Inr labelsMap \<Rightarrow> ([], Inr labelsMap))"

subsection \<open>IP addresses (lines 175-191)\<close>

definition invalidIP :: "IP \<Rightarrow> bool" where
  "invalidIP ip = (To4 ip = [] \<and> To16 ip = [])"

fun serviceIPLoop :: "env \<Rightarrow> string list \<Rightarrow> IP list \<Rightarrow> fatal + IP list" where
  "serviceIPLoop env [] ipaddresses = Inr ipaddresses"
| "serviceIPLoop env (s # ss) ipaddresses =
     (if s = [] then serviceIPLoop env ss ipaddresses
      else if invalidIP (ParseIP env s) then Inl InvalidServiceIP
      else serviceIPLoop env ss (ipaddresses @ [ParseIP env s]))"

definition gatherIPs :: "config \<Rightarrow> env \<Rightarrow> IP list run" where
  "gatherIPs cfg env =
     (if invalidIP (ParseIP env (podIP cfg)) then ([], Inl (Fatal InvalidPodIP))
      else (case serviceIPLoop env (Split (serviceIPs cfg) (CHR '','')) [ParseIP env (podIP cfg)] of
              Inl f \<Rightarrow> ([], Inl (Fatal f))
            | Inr ipaddresses \<Rightarrow> ([], Inr ipaddresses)))"

subsection \<open>DNS names (lines 203-217)\<close>

fun additionalLoop :: "string list \<Rightarrow> string list \<Rightarrow> string list" where
  "additionalLoop [] dnsNames = dnsNames"
| "additionalLoop (n # ns) dnsNames =
     (if n = [] then additionalLoop ns dnsNames else additionalLoop ns (dnsNames @ [n]))"

fun serviceNameLoop :: "string list \<Rightarrow> string \<Rightarrow> string \<Rightarrow> string list \<Rightarrow> string list" where
  "serviceNameLoop [] ns domain dnsNames = dnsNames"
| "serviceNameLoop (n # names) ns domain dnsNames =
     (if n = [] then serviceNameLoop names ns domain dnsNames
      else serviceNameLoop names ns domain (dnsNames @ [serviceDomainName n ns domain]))"

definition gatherDNSNames :: "config \<Rightarrow> string list" where
  "gatherDNSNames cfg =
     serviceNameLoop (Split (serviceNames cfg) (CHR '','')) (namespace cfg) (clusterDomain cfg)
       (additionalLoop (Split (additionalDNSNames cfg) (CHR '',''))
          (defaultDNSNames (headlessNameAsCN cfg) (podIP cfg) (hostname cfg) (subdomain cfg)
             (namespace cfg) (clusterDomain cfg)))"

subsection \<open>The certificate request (lines 221-262)\<close>

definition subjectField :: "string \<Rightarrow> string list" where
  "subjectField s = (if length s > 0 then Split s (CHR '','') else [])"

text \<open>\<^verbatim>\<open>dnsNames[0]\<close> panics on an empty list.\<close>

definition certificateRequestTemplate ::
  "config \<Rightarrow> string list \<Rightarrow> IP list \<Rightarrow> panic + certificateRequest" where
  "certificateRequestTemplate cfg dnsNames ipaddresses =
     (if length dnsNames = 0 then Inl IndexOutOfRange
      else Inr \<lparr> CommonName = dnsNames ! 0,
                 Country = subjectField (countries cfg),
                 Organization = subjectField (organizations cfg),
                 OrganizationalUnit = subjectField (organizationalUnits cfg),
                 SignatureAlgorithm = SHA256WithRSA,
                 DNSNames = dnsNames,
                 IPAddresses = ipaddresses \<rparr>)"

definition buildRequest ::
  "config \<Rightarrow> env \<Rightarrow> string \<Rightarrow> privateKey \<Rightarrow> string list \<Rightarrow> IP list \<Rightarrow> bytes run" where
  "buildRequest cfg env dir key dnsNames ipaddresses =
     (case certificateRequestTemplate cfg dnsNames ipaddresses of
        Inl p \<Rightarrow> ([], Inl (Panic p))
      | Inr template \<Rightarrow>
          after [CallCreateCertificateRequest template key]
           (case CreateCertificateRequest env template key of
              None \<Rightarrow> ([], Inl (Fatal CertRequestFailed))
            | Some certificateRequest \<Rightarrow>
                (let certificateRequestBytes =
                       EncodeToMemory env ''CERTIFICATE REQUEST'' certificateRequest in
                 if secretName cfg = [] then
                   (let csrFile = Join env dir ''tls.csr'' in
                    if WriteFile env csrFile certificateRequestBytes 420
                    then ([CallWriteFile csrFile certificateRequestBytes 420],
                          Inr certificateRequestBytes)
                    else ([CallWriteFile csrFile certificateRequestBytes 420],
                          Inl (Fatal (WriteFailed csrFile))))
                 else ([], Inr certificateRequestBytes))))"

subsection \<open>Signing-Request Client (lines 266-318)\<close>

definition certificateSigningRequestName :: "config \<Rightarrow> string" where
  "certificateSigningRequestName cfg = podName cfg @ ''-'' @ namespace cfg"

definition signingRequest ::
  "config \<Rightarrow> (string \<rightharpoonup> string) \<Rightarrow> bytes \<Rightarrow> certificateSigningRequest" where
  "signingRequest cfg labelsMap certificateRequestBytes =
     \<lparr> csrName = certificateSigningRequestName cfg,
       csrLabels = labelsMap,
       Groups = [''system:authenticated''],
       Request = certificateRequestBytes,
       KeyUsage = [''digital signature'', ''key encipherment'', ''server auth'',
                   ''client auth''] \<rparr>"

text \<open>The poll loop (lines 294-318). \<open>i\<close> is the number of the next fetch; one unit
  of fuel is one iteration. The dereference \<^verbatim>\<open>*...Conditions()[0].Type\<close> of line 303 is
  not guarded: on a \<^verbatim>\<open>nil\<close> type it panics.\<close>

fun poll :: "nat \<Rightarrow> (nat \<Rightarrow> csrStatus option) \<Rightarrow> string \<Rightarrow> nat \<Rightarrow> bytes run" where
  "poll 0 gets name i = ([], Inl Waiting)"
| "poll (Suc fuel) gets name i =
     (case gets i of
        None \<Rightarrow> after [CallGetCSR name, CallSleep 5] (poll fuel gets name (Suc i))
      | Some csr \<Rightarrow>
          (if length (Conditions csr) > 0 then
             (case condType (Conditions csr ! 0) of
                None \<Rightarrow> ([CallGetCSR name], Inl (Panic NilDereference))
              | Some t \<Rightarrow>
                  (if t = ''Approved'' then
                     (if length (Certificate csr) > 1
                      then ([CallGetCSR name], Inr (Certificate csr))
                      else after [CallGetCSR name, CallSleep 5] (poll fuel gets name (Suc i)))
                   else after [CallGetCSR name, CallSleep 5] (poll fuel gets name (Suc i))))
           else after [CallGetCSR name, CallSleep 5] (poll fuel gets name (Suc i))))"

text \<open>Delete, presence check, create, poll (lines 278-318). The result of the delete
  is discarded; fetch number 0 is the presence check.\<close>

definition requestCertificate ::
  "nat \<Rightarrow> env \<Rightarrow> certificateSigningRequest \<Rightarrow> bytes run" where
  "requestCertificate fuel env csr =
     after [CallDeleteCSR (csrName csr), CallGetCSR (csrName csr)]
      (case GetCertificateSigningRequest env 0 of
         None \<Rightarrow>
           after [CallCreateCSR csr]
            (if CreateCertificateSigningRequest env csr
             then poll fuel (GetCertificateSigningRequest env) (csrName csr) 1
             else ([], Inl (Fatal CreateCSRFailed)))
       | Some existing \<Rightarrow> poll fuel (GetCertificateSigningRequest env) (csrName csr) 1)"

subsection \<open>Output Sink (lines 320-348)\<close>

definition caFile :: string where
  "caFile = ''/var/run/secrets/kubernetes.io/serviceaccount/ca.crt''"

definition updatedSecret :: "secret \<Rightarrow> bytes \<Rightarrow> bytes \<Rightarrow> bytes \<Rightarrow> secret" where
  "updatedSecret ks pemKeyBytes certificate k8sCrt =
     ks\<lparr> StringData :=
           ((Map.empty(''tls.key'' \<mapsto> pemKeyBytes))(''tls.crt'' \<mapsto> certificate))
             (''ca.crt'' \<mapsto> k8sCrt) \<rparr>"

text \<open>The error of \<^verbatim>\<open>UpdateSecret\<close> is assigned and never read.\<close>

definition storeSecret :: "env \<Rightarrow> secret option \<Rightarrow> bytes \<Rightarrow> bytes \<Rightarrow> outcome run" where
  "storeSecret env sec pemKeyBytes certificate =
     (case sec of
        None \<Rightarrow> ([], Inl (Exit 0))
      | Some ks \<Rightarrow>
          (case ReadFile env caFile of
             None \<Rightarrow> ([CallReadFile caFile], Inl (Panic ReadCAFailed))
           | Some k8sCrt \<Rightarrow>
               ([CallReadFile caFile,
                 CallUpdateSecret (updatedSecret ks pemKeyBytes certificate k8sCrt)],
                Inl (Exit 0))))"

definition deliver ::
  "config \<Rightarrow> env \<Rightarrow> string \<Rightarrow> secret option \<Rightarrow> bytes \<Rightarrow> bytes \<Rightarrow> outcome run" where
  "deliver cfg env dir sec pemKeyBytes certificate =
     andThen
       (if secretName cfg = [] then
          (let certFile = Join env dir ''tls.crt'' in
           if WriteFile env certFile certificate 420
           then ([CallWriteFile certFile certificate 420], Inr ())
           else ([CallWriteFile certFile certificate 420], Inl (Fatal (WriteFailed certFile))))
        else ([], Inr ()))
       (\<lambda>u. after [CallDeleteCSR (certificateSigningRequestName cfg)]
               (storeSecret env sec pemKeyBytes certificate))"

subsection \<open>The whole of \<^verbatim>\<open>main\<close>\<close>

text \<open>\<open>main fuel cfg env\<close> is the run of the program under the flags \<open>cfg\<close> in the
  world \<open>env\<close>: the events it causes and how it ends, each of the two retry loops
  being followed for at most \<open>fuel\<close> iterations.\<close>

text \<open>The stages up to and including label parsing: everything that runs before the
  IP literals are looked at.\<close>

definition beforeIPs ::
  "nat \<Rightarrow> config \<Rightarrow> env \<Rightarrow>
     (string \<times> secret option \<times> privateKey \<times> bytes \<times> (string \<rightharpoonup> string)) run" where
  "beforeIPs fuel cfg env =
     andThen (startup cfg env) (\<lambda>dir.
     andThen (preflight fuel cfg env) (\<lambda>sec.
     andThen (generateKey cfg env dir) (\<lambda>(key, pemKeyBytes).
     andThen (gatherLabels cfg) (\<lambda>labelsMap.
       ([], Inr (dir, sec, key, pemKeyBytes, labelsMap))))))"

definition afterIPs ::
  "nat \<Rightarrow> config \<Rightarrow> env \<Rightarrow>
     (string \<times> secret option \<times> privateKey \<times> bytes \<times> (string \<rightharpoonup> string)) \<Rightarrow>
     IP list \<Rightarrow> outcome run" where
  "afterIPs fuel cfg env st ipaddresses =
     (case st of (dir, sec, key, pemKeyBytes, labelsMap) \<Rightarrow>
        andThen (buildRequest cfg env dir key (gatherDNSNames cfg) ipaddresses)
          (\<lambda>certificateRequestBytes.
        andThen (requestCertificate fuel env
                   (signingRequest cfg labelsMap certificateRequestBytes))
          (\<lambda>certificate.
        deliver cfg env dir sec pemKeyBytes certificate)))"

definition main :: "nat \<Rightarrow> config \<Rightarrow> env \<Rightarrow> event list \<times> outcome" where
  "main fuel cfg env =
     (case andThen (beforeIPs fuel cfg env) (\<lambda>st.
           andThen (gatherIPs cfg env) (\<lambda>ipaddresses.
             afterIPs fuel cfg env st ipaddresses)) of
        (t, Inl out) \<Rightarrow> (t, out)
      | (t, Inr out) \<Rightarrow> (t, out))"

subsection \<open>Kinds of events\<close>

datatype kind =
    SecretFetch | Pause | KeyGeneration | FileWrite | RequestSigning
  | SigningRequestCall | FileRead | SecretUpdate

fun kindOf :: "event \<Rightarrow> kind" where
  "kindOf (CallGetSecret name ns) = SecretFetch"
| "kindOf (CallGenerateKey bits) = KeyGeneration"
| "kindOf (CallWriteFile file content perm) = FileWrite"
| "kindOf (CallCreateCertificateRequest template key) = RequestSigning"
| "kindOf (CallDeleteCSR name) = SigningRequestCall"
| "kindOf (CallGetCSR name) = SigningRequestCall"
| "kindOf (CallCreateCSR csr) = SigningRequestCall"
| "kindOf (CallReadFile file) = FileRead"
| "kindOf (CallUpdateSecret s) = SecretUpdate"
| "kindOf (CallSleep seconds) = Pause"

text \<open>The condition for a return of the poll loop as the claim words it: the fetch
  succeeded, the request has at least one condition, the first condition's type is
  "Approved", and the certificate payload is non-empty.\<close>

definition issued :: "csrStatus option \<Rightarrow> bytes \<Rightarrow> bool" where
  "issued response cert =
     (\<exists>csr. response = Some csr \<and> Conditions csr \<noteq> []
            \<and> condType (hd (Conditions csr)) = Some ''Approved''
            \<and> Certificate csr \<noteq> [] \<and> Certificate csr = cert)"

text \<open>The three ways an iteration of the loop in the code goes, read off lines
  296-317: it leaves with the certificate (first condition "Approved", payload longer than
  one byte), it panics (first condition without type), or it pauses and goes round
  again.\<close>

definition accepted :: "csrStatus option \<Rightarrow> bytes \<Rightarrow> bool" where
  "accepted response cert =
     (\<exists>csr. response = Some csr \<and> Conditions csr \<noteq> []
            \<and> condType (hd (Conditions csr)) = Some ''Approved''
            \<and> 1 < length (Certificate csr) \<and> Certificate csr = cert)"

definition untyped :: "csrStatus option \<Rightarrow> bool" where
  "untyped response =
     (\<exists>csr. response = Some csr \<and> Conditions csr \<noteq> []
            \<and> condType (hd (Conditions csr)) = None)"

definition retried :: "csrStatus option \<Rightarrow> bool" where
  "retried response = (\<not> untyped response \<and> (\<nexists>cert. accepted response cert))"

text \<open>\<open>k\<close> unsuccessful rounds of the poll loop: a fetch and a pause of 5 seconds
  each.\<close>

definition attempts :: "string \<Rightarrow> nat \<Rightarrow> event list" where
  "attempts name k = concat (replicate k [CallGetCSR name, CallSleep 5])"

text \<open>\<open>k\<close> unsuccessful rounds of the secret preflight loop: a fetch and a pause of 5
  seconds each.\<close>

definition secretAttempts :: "config \<Rightarrow> nat \<Rightarrow> event list" where
  "secretAttempts cfg k =
     concat (replicate k [CallGetSecret (secretName cfg) (namespace cfg), CallSleep 5])"

subsection \<open>Example configurations and worlds\<close>

text \<open>The flags' defaults (lines 61-78).\<close>

definition defaultConfig :: config where
  "defaultConfig =
     \<lparr> additionalDNSNames = [], certDir = [], clusterDomain = ''cluster.local'',
       headlessNameAsCN = False, hostname = [], namespace = ''default'',
       pkcs8Format = False, podIP = [], podName = [], serviceIPs = [],
       serviceNames = [], subdomain = [], labels = [], secretName = [],
       keysize = 2048, countries = [], organizations = [], organizationalUnits = [] \<rparr>"

text \<open>The end-to-end scenario of the specification.\<close>

definition appConfig :: config where
  "appConfig = defaultConfig\<lparr> podIP := ''10.0.0.5'', namespace := ''ns1'', podName := ''app'' \<rparr>"

definition approvedStatus :: csrStatus where
  "approvedStatus =
     \<lparr> Conditions = [\<lparr> condType = Some ''Approved'' \<rparr>], Certificate = ''CERT'' \<rparr>"

text \<open>An approved request whose certificate is a single byte, and a request whose
  first condition has no type.\<close>

definition oneByteStatus :: csrStatus where
  "oneByteStatus = \<lparr> Conditions = [\<lparr> condType = Some ''Approved'' \<rparr>], Certificate = ''C'' \<rparr>"

definition untypedStatus :: csrStatus where
  "untypedStatus = \<lparr> Conditions = [\<lparr> condType = None \<rparr>], Certificate = ''CERT'' \<rparr>"

text \<open>A world where every library call succeeds, the only literal that parses is
  \<open>10.0.0.5\<close>, no secret is ever found, and the signing request is absent at the
  presence check, fetched with an error once more and then approved.\<close>

definition appEnv :: env where
  "appEnv =
     \<lparr> NewInClusterClient = True,
       GetSecret = (\<lambda>i. None),
       GenerateKey = (\<lambda>bits. Some 1),
       ConvertPrivateKeyToPKCS8 = (\<lambda>key. Some ''pkcs8''),
       MarshalPKCS1PrivateKey = (\<lambda>key. ''pkcs1''),
       EncodeToMemory = (\<lambda>ptype b. ptype @ '':'' @ b),
       Join = (\<lambda>dir file. dir @ ''/'' @ file),
       WriteFile = (\<lambda>file content perm. True),
       ParseIP = (\<lambda>s. if s = ''10.0.0.5'' then v4InV6Prefix @ [10, 0, 0, 5] else []),
       CreateCertificateRequest = (\<lambda>template key. Some ''der''),
       GetCertificateSigningRequest = (\<lambda>i. if i < 2 then None else Some approvedStatus),
       CreateCertificateSigningRequest = (\<lambda>csr. True),
       ReadFile = (\<lambda>file. Some ''CA'') \<rparr>"

definition emptySecret :: secret where
  "emptySecret =
     \<lparr> Metadata = \<lparr> metaName = ''tls'', metaNamespace = ''ns1'', metaLabels = Map.empty \<rparr>,
       Data = Map.empty, StringData = Map.empty, secretType = ''Opaque'' \<rparr>"

text \<open>A secret that has the three keys, each with the empty byte string.\<close>

definition blankSecret :: secret where
  "blankSecret =
     emptySecret\<lparr> Data := ((Map.empty(''tls.key'' \<mapsto> []))(''tls.crt'' \<mapsto> []))(''ca.crt'' \<mapsto> []) \<rparr>"

definition fullSecret :: secret where
  "fullSecret =
     emptySecret\<lparr> Data := ((Map.empty(''tls.key'' \<mapsto> ''K''))(''tls.crt'' \<mapsto> ''C''))(''ca.crt'' \<mapsto> ''A'') \<rparr>"

text \<open>A pod IP that does not parse, and a service IP list whose last entry does not.\<close>

definition badPodIPConfig :: config where
  "badPodIPConfig = appConfig\<lparr> podIP := ''10.0.0.256'' \<rparr>"

definition badServiceIPConfig :: config where
  "badServiceIPConfig = appConfig\<lparr> serviceIPs := ''10.0.0.5,,x'', secretName := ''tls'' \<rparr>"

text \<open>Secret-store mode, and worlds where the first fetch of the secret fails and the
  second finds a secret without data, with three empty values, with three non-empty
  values.\<close>

definition secretConfig :: config where
  "secretConfig = appConfig\<lparr> secretName := ''tls'' \<rparr>"

definition emptySecretEnv :: env where
  "emptySecretEnv = appEnv\<lparr> GetSecret := \<lambda>i. if i < 1 then None else Some emptySecret \<rparr>"

definition blankSecretEnv :: env where
  "blankSecretEnv = appEnv\<lparr> GetSecret := \<lambda>i. if i < 1 then None else Some blankSecret \<rparr>"

definition fullSecretEnv :: env where
  "fullSecretEnv = appEnv\<lparr> GetSecret := \<lambda>i. if i < 1 then None else Some fullSecret \<rparr>"

text \<open>A workload with hostname and subdomain, without and with the headless name
  as Common Name; a configuration that selects both sinks.\<close>

definition headlessConfig :: config where
  "headlessConfig = appConfig\<lparr> hostname := ''h'', subdomain := ''s'' \<rparr>"

definition headlessCNConfig :: config where
  "headlessCNConfig = headlessConfig\<lparr> headlessNameAsCN := True \<rparr>"

definition bothSinksConfig :: config where
  "bothSinksConfig = appConfig\<lparr> certDir := ''/certs'', secretName := ''tls'' \<rparr>"

text \<open>Worlds where the signing request is found at the presence check, and where its
  creation is refused.\<close>

definition presentEnv :: env where
  "presentEnv = appEnv\<lparr> GetCertificateSigningRequest := \<lambda>i. Some approvedStatus \<rparr>"

definition refusingEnv :: env where
  "refusingEnv = appEnv\<lparr> CreateCertificateSigningRequest := \<lambda>csr. False \<rparr>"

section \<open>Properties\<close>

subsection \<open>Domain names\<close>

lemma Split_not_Nil: "Split s sep \<noteq> []"
  by (induction s) (auto split: list.splits)

lemma Replace_map: "Replace s old new = map (\<lambda>c. if c = old then new else c) s"
  by (induction s) auto

text \<open>Claim C6: the pod domain name is the IP with every dot replaced by a dash,
  followed by \<open>.{namespace}.pod.{clusterDomain}\<close>, and the service domain name is
  \<open>{name}.{namespace}.svc.{clusterDomain}\<close>; the two examples of the specification
  evaluate as stated.\<close>

theorem domain_names_format:
  "podDomainName ip ns d =
     map (\<lambda>c. if c = CHR ''.'' then CHR ''-'' else c) ip @ ''.'' @ ns @ ''.pod.'' @ d
   \<and> serviceDomainName name ns d = name @ ''.'' @ ns @ ''.svc.'' @ d
   \<and> podDomainName ''10.1.2.3'' ''default'' ''cluster.local''
       = ''10-1-2-3.default.pod.cluster.local''
   \<and> serviceDomainName ''web'' ''default'' ''cluster.local''
       = ''web.default.svc.cluster.local''"
  by (simp add: podDomainName_def serviceDomainName_def Replace_map)

subsection \<open>Sequencing of stages\<close>

lemma after_Pair [simp]: "after t (t', x) = (t @ t', x)"
  by (simp add: after_def)

lemma fst_after [simp]: "fst (after t r) = t @ fst r"
  by (cases r) simp

lemma snd_after [simp]: "snd (after t r) = snd r"
  by (cases r) simp

lemma after_eq: "after t r = (t @ fst r, snd r)"
  by (cases r) simp

lemma andThen_Inl [simp]: "andThen (t, Inl out) f = (t, Inl out)"
  by (simp add: andThen_def)

lemma andThen_Inr [simp]: "andThen (t, Inr a) f = after t (f a)"
  by (simp add: andThen_def)

subsection \<open>The DNS name list and the Common Name\<close>

lemma additionalLoop_filter:
  "additionalLoop ns dnsNames = dnsNames @ filter (\<lambda>n. n \<noteq> []) ns"
  by (induction ns arbitrary: dnsNames) auto

lemma serviceNameLoop_map:
  "serviceNameLoop names ns d dnsNames =
     dnsNames @ map (\<lambda>n. serviceDomainName n ns d) (filter (\<lambda>n. n \<noteq> []) names)"
  by (induction names arbitrary: dnsNames) auto

lemma gatherDNSNames_append:
  "gatherDNSNames cfg =
     defaultDNSNames (headlessNameAsCN cfg) (podIP cfg) (hostname cfg) (subdomain cfg)
       (namespace cfg) (clusterDomain cfg)
     @ filter (\<lambda>n. n \<noteq> []) (Split (additionalDNSNames cfg) (CHR '',''))
     @ map (\<lambda>n. serviceDomainName n (namespace cfg) (clusterDomain cfg))
         (filter (\<lambda>n. n \<noteq> []) (Split (serviceNames cfg) (CHR '','')))"
  by (simp add: gatherDNSNames_def additionalLoop_filter serviceNameLoop_map)

text \<open>Claim C5: the DNS name list is never empty and the Common Name of the request
  template is its index 0; the pod domain name is always in the list. With
  \<^verbatim>\<open>headlessNameAsCN\<close> set and hostname and subdomain both non-empty, the headless name
  is at index 0 and the pod domain name at index 1; with it unset, the pod domain name is
  at index 0 and the headless name, when hostname and subdomain are both non-empty, at
  index 1.\<close>

theorem common_name_is_first_dns_name:
  "1 \<le> length (gatherDNSNames cfg)
   \<and> (\<exists>template. certificateRequestTemplate cfg (gatherDNSNames cfg) ips = Inr template
         \<and> DNSNames template = gatherDNSNames cfg
         \<and> CommonName template = DNSNames template ! 0)
   \<and> podDomainName (podIP cfg) (namespace cfg) (clusterDomain cfg) \<in> set (gatherDNSNames cfg)
   \<and> (headlessNameAsCN cfg \<and> hostname cfg \<noteq> [] \<and> subdomain cfg \<noteq> [] \<longrightarrow>
        gatherDNSNames cfg ! 0 =
          hostname cfg @ ''.'' @ subdomain cfg @ ''.'' @ namespace cfg @ ''.svc.'' @ clusterDomain cfg
        \<and> gatherDNSNames cfg ! 1 = podDomainName (podIP cfg) (namespace cfg) (clusterDomain cfg))
   \<and> (\<not> headlessNameAsCN cfg \<longrightarrow>
        gatherDNSNames cfg ! 0 = podDomainName (podIP cfg) (namespace cfg) (clusterDomain cfg)
        \<and> (hostname cfg \<noteq> [] \<and> subdomain cfg \<noteq> [] \<longrightarrow>
             gatherDNSNames cfg ! 1 =
               hostname cfg @ ''.'' @ subdomain cfg @ ''.'' @ namespace cfg @ ''.svc.'' @ clusterDomain cfg))"
  by (simp add: gatherDNSNames_append defaultDNSNames_def podHeadlessDomainName_def
      certificateRequestTemplate_def Let_def nth_append)

theorem common_name_is_first_dns_name_witness:
  "headlessNameAsCN headlessCNConfig \<and> hostname headlessCNConfig \<noteq> []
   \<and> subdomain headlessCNConfig \<noteq> []
   \<and> gatherDNSNames headlessCNConfig
       = [''h.s.ns1.svc.cluster.local'', ''10-0-0-5.ns1.pod.cluster.local'']
   \<and> \<not> headlessNameAsCN headlessConfig \<and> hostname headlessConfig \<noteq> []
   \<and> subdomain headlessConfig \<noteq> []
   \<and> gatherDNSNames headlessConfig
       = [''10-0-0-5.ns1.pod.cluster.local'', ''h.s.ns1.svc.cluster.local'']"
  using common_name_is_first_dns_name [of headlessCNConfig]
        common_name_is_first_dns_name [of headlessConfig]
  by (simp add: headlessCNConfig_def headlessConfig_def appConfig_def defaultConfig_def
      gatherDNSNames_append defaultDNSNames_def podHeadlessDomainName_def podDomainName_def)

subsection \<open>Sink selection\<close>

text \<open>Claim C7: with a certificate directory and a secret name both given, the run
  ends in a fatal error without any event: no key is generated, nothing is signed, no
  call is made. (When the client cannot be created, that fatal error comes first.)\<close>

theorem both_sinks_fatal:
  "certDir cfg \<noteq> [] \<Longrightarrow> secretName cfg \<noteq> [] \<Longrightarrow>
     main fuel cfg env =
       ([], Fatal (if NewInClusterClient env then BothSinks else ClientCreateFailed))"
  by (simp add: main_def beforeIPs_def startup_def)

theorem both_sinks_fatal_witness:
  "certDir bothSinksConfig \<noteq> [] \<and> secretName bothSinksConfig \<noteq> []
   \<and> main 3 bothSinksConfig appEnv = ([], Fatal BothSinks)"
  using both_sinks_fatal [of bothSinksConfig 3 appEnv]
  by (simp add: bothSinksConfig_def appConfig_def defaultConfig_def appEnv_def)

subsection \<open>The poll loop\<close>

lemma poll_accepted:
  "accepted (gets i) cert \<Longrightarrow> poll (Suc fuel) gets name i = ([CallGetCSR name], Inr cert)"
  by (auto simp: accepted_def hd_conv_nth)

lemma poll_untyped:
  "untyped (gets i) \<Longrightarrow>
     poll (Suc fuel) gets name i = ([CallGetCSR name], Inl (Panic NilDereference))"
  by (auto simp: untyped_def hd_conv_nth)

lemma poll_retried:
  "retried (gets i) \<Longrightarrow>
     poll (Suc fuel) gets name i =
       after [CallGetCSR name, CallSleep 5] (poll fuel gets name (Suc i))"
  by (auto simp: retried_def accepted_def untyped_def hd_conv_nth split: option.splits)

lemma response_cases: "retried r \<or> untyped r \<or> (\<exists>cert. accepted r cert)"
  by (auto simp: retried_def)

lemma retried_None: "retried None"
  by (simp add: retried_def accepted_def untyped_def)

lemma accepted_issued: "accepted r cert \<Longrightarrow> issued r cert"
  by (auto simp: accepted_def issued_def)

lemma issued_accepted_or_one_byte:
  "issued r cert \<Longrightarrow> accepted r cert \<or> (length cert = 1 \<and> retried r)"
  by (cases cert) (auto simp: accepted_def issued_def retried_def untyped_def)

lemma attempts_Suc: "attempts name (Suc k) = [CallGetCSR name, CallSleep 5] @ attempts name k"
  by (simp add: attempts_def)

lemma after_after: "after t (after t' r) = after (t @ t') r"
  by (simp add: after_eq)

lemma poll_skip:
  "(\<And>j. j < k \<Longrightarrow> retried (gets (i + j))) \<Longrightarrow>
     poll (k + fuel) gets name i = after (attempts name k) (poll fuel gets name (i + k))"
proof (induction k arbitrary: i)
  case 0
  show ?case by (simp add: attempts_def after_eq)
next
  case (Suc k)
  have first: "retried (gets i)" using Suc.prems [of 0] by simp
  have rest: "\<And>j. j < k \<Longrightarrow> retried (gets (Suc i + j))"
    using Suc.prems [of "Suc _"] by simp
  have "poll (Suc k + fuel) gets name i =
          after [CallGetCSR name, CallSleep 5] (poll (k + fuel) gets name (Suc i))"
    using poll_retried [of gets i "k + fuel" name] first by simp
  also have "\<dots> = after [CallGetCSR name, CallSleep 5]
                     (after (attempts name k) (poll fuel gets name (Suc i + k)))"
    using Suc.IH [of "Suc i"] rest by simp
  finally show ?case by (simp add: after_after attempts_Suc)
qed

lemma poll_returns_at:
  assumes "\<And>j. j < k \<Longrightarrow> retried (gets (i + j))" and "accepted (gets (i + k)) cert"
  shows "poll (Suc k + extra) gets name i = (attempts name k @ [CallGetCSR name], Inr cert)"
proof -
  have "poll (k + Suc extra) gets name i =
          after (attempts name k) (poll (Suc extra) gets name (i + k))"
    using poll_skip [of k gets i "Suc extra" name] assms(1) by blast
  then show ?thesis
    using poll_accepted [of gets "i + k" cert extra name] assms(2) by (simp add: after_eq)
qed

lemma poll_all_retried:
  assumes "\<And>j. j < fuel \<Longrightarrow> retried (gets (i + j))"
  shows "poll fuel gets name i = (attempts name fuel, Inl Waiting)"
  using poll_skip [of fuel gets i 0 name] assms by (simp add: after_eq)

lemma poll_Inr_least:
  "snd (poll fuel gets name i) = Inr cert \<Longrightarrow>
     \<exists>k<fuel. (\<forall>j<k. retried (gets (i + j))) \<and> accepted (gets (i + k)) cert"
proof (induction fuel arbitrary: i)
  case 0
  then show ?case by simp
next
  case (Suc fuel)
  from response_cases [of "gets i"] consider
    (again) "retried (gets i)" | (panic) "untyped (gets i)"
    | (leave) c where "accepted (gets i) c" by blast
  then show ?case
  proof cases
    case again
    have "snd (poll fuel gets name (Suc i)) = Inr cert"
      using Suc.prems poll_retried [of gets i fuel name] again by (simp del: poll.simps)
    from Suc.IH [OF this] obtain k where k: "k < fuel"
      "\<forall>j<k. retried (gets (Suc i + j))" "accepted (gets (Suc i + k)) cert" by blast
    have "\<forall>j<Suc k. retried (gets (i + j))"
      using again k(2) by (auto simp: less_Suc_eq_0_disj)
    with k(1,3) show ?thesis by (intro exI [of _ "Suc k"]) simp
  next
    case panic
    then have False
      using Suc.prems poll_untyped [of gets i fuel name] by (simp del: poll.simps)
    then show ?thesis ..
  next
    case leave
    have "c = cert"
      using Suc.prems poll_accepted [of gets i c fuel name] leave by (simp del: poll.simps)
    with leave show ?thesis by (intro exI [of _ 0]) simp
  qed
qed

text \<open>What the loop in the code does: it returns certificate bytes exactly when,
  within the fetches it is allowed, some fetch succeeds with a first condition of type
  "Approved" and a payload of more than one byte, every earlier fetch having been
  retried; with none it pauses 5 seconds after every fetch and never gives up.\<close>

lemma poll_returns_iff_accepted:
  "(snd (poll fuel gets name i) = Inr cert \<longleftrightarrow>
      (\<exists>k<fuel. (\<forall>j<k. retried (gets (i + j))) \<and> accepted (gets (i + k)) cert))
   \<and> ((\<forall>j<fuel. retried (gets (i + j))) \<longrightarrow>
        poll fuel gets name i = (attempts name fuel, Inl Waiting))"
proof (intro conjI impI iffI)
  assume "snd (poll fuel gets name i) = Inr cert"
  then show "\<exists>k<fuel. (\<forall>j<k. retried (gets (i + j))) \<and> accepted (gets (i + k)) cert"
    by (rule poll_Inr_least)
next
  assume "\<exists>k<fuel. (\<forall>j<k. retried (gets (i + j))) \<and> accepted (gets (i + k)) cert"
  then obtain k where k: "k < fuel" "\<forall>j<k. retried (gets (i + j))"
    "accepted (gets (i + k)) cert" by blast
  from k(1) obtain extra where "fuel = Suc k + extra"
    by (metis less_iff_Suc_add add_Suc)
  with poll_returns_at [of k gets i cert extra name] k(2,3)
  show "snd (poll fuel gets name i) = Inr cert" by simp
next
  assume "\<forall>j<fuel. retried (gets (i + j))"
  then show "poll fuel gets name i = (attempts name fuel, Inl Waiting)"
    using poll_all_retried [of fuel gets i name] by blast
qed

text \<open>Claim C3 does not hold of the code, in two places. A fetched request whose first
  condition is "Approved" and whose certificate is a single byte meets the claim's
  condition for a return (a condition, type "Approved", payload non-empty), yet the loop
  never returns it: it pauses and fetches again, for any number of rounds, because line
  305 asks for more than one byte, where the log line 309 of the same branch speaks of
  a length less than 1. And a request whose first condition has no type meets none of
  the claim's conditions, so that the claim has the loop pause and retry, where the
  dereference of line 303 panics.\<close>

theorem one_byte_certificate_never_returned:
  "issued (Some oneByteStatus) ''C''
   \<and> poll fuel (\<lambda>n. Some oneByteStatus) name i = (attempts name fuel, Inl Waiting)
   \<and> (\<nexists>cert. issued (Some untypedStatus) cert)
   \<and> poll (Suc fuel) (\<lambda>n. Some untypedStatus) name i
       = ([CallGetCSR name], Inl (Panic NilDereference))"
proof -
  have a: "issued (Some oneByteStatus) ''C''"
    by (simp add: issued_def oneByteStatus_def)
  have "retried (Some oneByteStatus)"
    by (simp add: retried_def accepted_def untyped_def oneByteStatus_def)
  then have b: "poll fuel (\<lambda>n. Some oneByteStatus) name i = (attempts name fuel, Inl Waiting)"
    using poll_all_retried [of fuel "\<lambda>n. Some oneByteStatus" i name] by simp
  have c: "\<nexists>cert. issued (Some untypedStatus) cert"
    by (simp add: issued_def untypedStatus_def)
  have "untyped (Some untypedStatus)"
    by (simp add: untyped_def untypedStatus_def)
  then have d: "poll (Suc fuel) (\<lambda>n. Some untypedStatus) name i
       = ([CallGetCSR name], Inl (Panic NilDereference))"
    using poll_untyped [of "\<lambda>n. Some untypedStatus" i fuel name] by simp
  from a b c d show ?thesis by blast
qed

subsection \<open>The start sequence of the signing-request client\<close>

lemma poll_events: "set (fst (poll fuel gets name i)) \<subseteq> {CallGetCSR name, CallSleep 5}"
  by (induction fuel arbitrary: i) (auto split: option.splits)

text \<open>Claim C2: the client first deletes the request of the deterministic name
  (whatever the delete returns), then fetches it by name. When the fetch succeeds it
  goes straight to polling and the run contains no create call; polling itself only
  fetches and pauses. When the fetch fails it submits the request once: a creation error
  ends the run with a fatal error right there, otherwise polling follows.\<close>

theorem start_sequence:
  "take 2 (fst (requestCertificate fuel env csr))
     = [CallDeleteCSR (csrName csr), CallGetCSR (csrName csr)]
   \<and> set (fst (poll fuel (GetCertificateSigningRequest env) (csrName csr) 1))
       \<subseteq> {CallGetCSR (csrName csr), CallSleep 5}
   \<and> (GetCertificateSigningRequest env 0 \<noteq> None \<longrightarrow>
        requestCertificate fuel env csr
          = after [CallDeleteCSR (csrName csr), CallGetCSR (csrName csr)]
              (poll fuel (GetCertificateSigningRequest env) (csrName csr) 1)
        \<and> (\<forall>other. CallCreateCSR other \<notin> set (fst (requestCertificate fuel env csr))))
   \<and> (GetCertificateSigningRequest env 0 = None \<and> CreateCertificateSigningRequest env csr \<longrightarrow>
        requestCertificate fuel env csr
          = after [CallDeleteCSR (csrName csr), CallGetCSR (csrName csr), CallCreateCSR csr]
              (poll fuel (GetCertificateSigningRequest env) (csrName csr) 1))
   \<and> (GetCertificateSigningRequest env 0 = None \<and> \<not> CreateCertificateSigningRequest env csr \<longrightarrow>
        requestCertificate fuel env csr
          = ([CallDeleteCSR (csrName csr), CallGetCSR (csrName csr), CallCreateCSR csr],
             Inl (Fatal CreateCSRFailed)))"
proof -
  let ?p = "poll fuel (GetCertificateSigningRequest env) (csrName csr) 1"
  have ev: "set (fst ?p) \<subseteq> {CallGetCSR (csrName csr), CallSleep 5}"
    by (rule poll_events)
  have no_create: "CallCreateCSR other \<notin> set (fst ?p)" for other
    using ev by auto
  show ?thesis
    using ev no_create
    by (auto simp: requestCertificate_def after_eq split: option.splits)
qed

theorem start_sequence_witness:
  "GetCertificateSigningRequest appEnv 0 = None
   \<and> requestCertificate 2 appEnv (signingRequest appConfig Map.empty ''pem'')
     = ([CallDeleteCSR ''app-ns1'', CallGetCSR ''app-ns1'',
         CallCreateCSR (signingRequest appConfig Map.empty ''pem''),
         CallGetCSR ''app-ns1'', CallSleep 5, CallGetCSR ''app-ns1''], Inr ''CERT'')
   \<and> GetCertificateSigningRequest presentEnv 0 = Some approvedStatus
   \<and> requestCertificate 2 presentEnv (signingRequest appConfig Map.empty ''pem'')
     = ([CallDeleteCSR ''app-ns1'', CallGetCSR ''app-ns1'', CallGetCSR ''app-ns1''], Inr ''CERT'')
   \<and> GetCertificateSigningRequest refusingEnv 0 = None
   \<and> requestCertificate 2 refusingEnv (signingRequest appConfig Map.empty ''pem'')
     = ([CallDeleteCSR ''app-ns1'', CallGetCSR ''app-ns1'',
         CallCreateCSR (signingRequest appConfig Map.empty ''pem'')], Inl (Fatal CreateCSRFailed))"
proof -
  let ?csr = "signingRequest appConfig Map.empty ''pem''"
  have name: "csrName ?csr = ''app-ns1''"
    by (simp add: signingRequest_def certificateSigningRequestName_def appConfig_def
        defaultConfig_def)
  have p: "poll 2 (\<lambda>i. if i < 2 then None else Some approvedStatus) ''app-ns1'' 1
             = ([CallGetCSR ''app-ns1'', CallSleep 5, CallGetCSR ''app-ns1''], Inr ''CERT'')"
    by (simp add: numeral_2_eq_2 approvedStatus_def)
  have q: "poll 2 (\<lambda>i. Some approvedStatus) ''app-ns1'' 1 = ([CallGetCSR ''app-ns1''], Inr ''CERT'')"
    by (simp add: numeral_2_eq_2 approvedStatus_def)
  have a: "requestCertificate 2 appEnv ?csr
     = ([CallDeleteCSR ''app-ns1'', CallGetCSR ''app-ns1'', CallCreateCSR ?csr,
         CallGetCSR ''app-ns1'', CallSleep 5, CallGetCSR ''app-ns1''], Inr ''CERT'')"
    using start_sequence [of 2 appEnv ?csr] name p
    by (simp add: appEnv_def)
  have b: "requestCertificate 2 presentEnv ?csr
     = ([CallDeleteCSR ''app-ns1'', CallGetCSR ''app-ns1'', CallGetCSR ''app-ns1''], Inr ''CERT'')"
    using start_sequence [of 2 presentEnv ?csr] name q
    by (simp add: presentEnv_def appEnv_def)
  have c: "requestCertificate 2 refusingEnv ?csr
     = ([CallDeleteCSR ''app-ns1'', CallGetCSR ''app-ns1'', CallCreateCSR ?csr],
        Inl (Fatal CreateCSRFailed))"
    using start_sequence [of 2 refusingEnv ?csr] name
    by (simp add: refusingEnv_def appEnv_def)
  have g: "GetCertificateSigningRequest appEnv 0 = None"
    "GetCertificateSigningRequest presentEnv 0 = Some approvedStatus"
    "GetCertificateSigningRequest refusingEnv 0 = None"
    by (simp_all add: presentEnv_def refusingEnv_def appEnv_def)
  from a b c g show ?thesis by simp
qed

subsection \<open>Label parsing\<close>

lemma Split_no_sep: "sep \<notin> set s \<Longrightarrow> Split s sep = [s]"
  by (induction s) auto

lemma Split_sep_length: "sep \<in> set s \<Longrightarrow> 2 \<le> length (Split s sep)"
proof (induction s)
  case Nil
  then show ?case by simp
next
  case (Cons c cs)
  show ?case
  proof (cases "c = sep")
    case True
    then show ?thesis using Split_not_Nil [of cs sep] by (cases "Split cs sep") auto
  next
    case False
    with Cons show ?thesis by (auto split: list.splits)
  qed
qed

lemma Split_short_iff: "length (Split s sep) < 2 \<longleftrightarrow> sep \<notin> set s"
  using Split_sep_length [of sep s] Split_no_sep [of sep s] by fastforce

lemma labelsLoop_ok_iff:
  "(\<exists>labelsMap. labelsLoop ns m = Inr labelsMap)
     \<longleftrightarrow> (\<forall>n \<in> set ns. n \<noteq> [] \<longrightarrow> CHR ''='' \<in> set n)"
  by (induction ns arbitrary: m) (auto simp: Split_short_iff)

lemma labelsLoop_panic: "labelsLoop ns m = Inl p \<Longrightarrow> p = IndexOutOfRange"
  by (induction ns arbitrary: m) (auto split: if_splits)

text \<open>Claim C8: label parsing gets through exactly when every non-empty
  comma-separated entry of the labels option contains an \<open>=\<close>. A non-empty entry
  without \<open>=\<close> splits into a one-element list, and the read of index 1 panics with an
  index out of range.\<close>

theorem labels_without_equals_panic:
  "((\<exists>labelsMap. gatherLabels cfg = ([], Inr labelsMap))
      \<longleftrightarrow> (\<forall>n \<in> set (Split (labels cfg) (CHR '','')). n \<noteq> [] \<longrightarrow> CHR ''='' \<in> set n))
   \<and> ((\<exists>n \<in> set (Split (labels cfg) (CHR '','')). n \<noteq> [] \<and> CHR ''='' \<notin> set n)
        \<longrightarrow> gatherLabels cfg = ([], Inl (Panic IndexOutOfRange)))
   \<and> (n \<noteq> [] \<and> CHR ''='' \<notin> set n
        \<longrightarrow> Split n (CHR ''='') = [n] \<and> labelsLoop (n # ns) m = Inl IndexOutOfRange)"
proof -
  let ?ns = "Split (labels cfg) (CHR '','')"
  have ok: "(\<exists>labelsMap. labelsLoop ?ns Map.empty = Inr labelsMap)
      \<longleftrightarrow> (\<forall>n \<in> set ?ns. n \<noteq> [] \<longrightarrow> CHR ''='' \<in> set n)"
    by (rule labelsLoop_ok_iff)
  have a: "(\<exists>labelsMap. gatherLabels cfg = ([], Inr labelsMap))
      \<longleftrightarrow> (\<forall>n \<in> set ?ns. n \<noteq> [] \<longrightarrow> CHR ''='' \<in> set n)"
    unfolding ok [symmetric] by (auto simp: gatherLabels_def split: sum.splits)
  have b: "gatherLabels cfg = ([], Inl (Panic IndexOutOfRange))"
    if "\<exists>n \<in> set ?ns. n \<noteq> [] \<and> CHR ''='' \<notin> set n"
  proof (cases "labelsLoop ?ns Map.empty")
    case (Inl p)
    then show ?thesis using labelsLoop_panic [of ?ns Map.empty p] by (simp add: gatherLabels_def)
  next
    case (Inr labelsMap)
    then show ?thesis using ok that by blast
  qed
  have c: "Split n (CHR ''='') = [n] \<and> labelsLoop (n # ns) m = Inl IndexOutOfRange"
    if "n \<noteq> [] \<and> CHR ''='' \<notin> set n"
    using that by (simp add: Split_no_sep)
  from a b c show ?thesis by blast
qed

theorem labels_without_equals_panic_witness:
  "Split ''app'' (CHR ''='') = [''app'']
   \<and> gatherLabels (appConfig\<lparr> labels := ''tier=web,app'' \<rparr>) = ([], Inl (Panic IndexOutOfRange))
   \<and> (\<exists>labelsMap. gatherLabels (appConfig\<lparr> labels := ''tier=web,,app='' \<rparr>) = ([], Inr labelsMap))"
proof -
  have s1: "Split ''tier=web,app'' (CHR '','') = [''tier=web'', ''app'']" by simp
  have s2: "Split ''tier=web,,app='' (CHR '','') = [''tier=web'', [], ''app='']" by simp
  have a: "Split ''app'' (CHR ''='') = [''app'']"
    using labels_without_equals_panic [of appConfig "''app''" "[]" Map.empty] by simp
  have b: "gatherLabels (appConfig\<lparr> labels := ''tier=web,app'' \<rparr>)
             = ([], Inl (Panic IndexOutOfRange))"
    using labels_without_equals_panic [of "appConfig\<lparr> labels := ''tier=web,app'' \<rparr>" "''app''" "[]" Map.empty]
    by (simp add: s1)
  have c: "\<exists>labelsMap. gatherLabels (appConfig\<lparr> labels := ''tier=web,,app='' \<rparr>) = ([], Inr labelsMap)"
    using labels_without_equals_panic [of "appConfig\<lparr> labels := ''tier=web,,app='' \<rparr>" "''app''" "[]" Map.empty]
    by (simp add: s2)
  from a b c show ?thesis by blast
qed

text \<open>The panic ends the run, after the key has been generated and written.\<close>

lemma labels_panic_ends_run:
  "main 1 (appConfig\<lparr> labels := ''app'' \<rparr>) appEnv
     = ([CallGenerateKey 2048, CallWriteFile ''/etc/tls/tls.key'' ''RSA PRIVATE KEY:pkcs1'' 420],
        Panic IndexOutOfRange)"
  by (simp add: main_def beforeIPs_def startup_def preflight_def generateKey_def gatherLabels_def
      appConfig_def defaultConfig_def appEnv_def Let_def)

text \<open>The end-to-end scenario of the specification: three files written, exit code 0.\<close>

lemma end_to_end_scenario:
  "main 2 appConfig appEnv =
     ([CallGenerateKey 2048,
       CallWriteFile ''/etc/tls/tls.key'' ''RSA PRIVATE KEY:pkcs1'' 420,
       CallCreateCertificateRequest
         \<lparr> CommonName = ''10-0-0-5.ns1.pod.cluster.local'', Country = [], Organization = [],
           OrganizationalUnit = [], SignatureAlgorithm = SHA256WithRSA,
           DNSNames = [''10-0-0-5.ns1.pod.cluster.local''],
           IPAddresses = [[0, 0, 0, 0, 0, 0, 0, 0, 0, 0, 255, 255, 10, 0, 0, 5]] \<rparr> 1,
       CallWriteFile ''/etc/tls/tls.csr'' ''CERTIFICATE REQUEST:der'' 420,
       CallDeleteCSR ''app-ns1'', CallGetCSR ''app-ns1'',
       CallCreateCSR
         \<lparr> csrName = ''app-ns1'', csrLabels = Map.empty, Groups = [''system:authenticated''],
           Request = ''CERTIFICATE REQUEST:der'',
           KeyUsage = [''digital signature'', ''key encipherment'', ''server auth'',
                       ''client auth''] \<rparr>,
       CallGetCSR ''app-ns1'', CallSleep 5, CallGetCSR ''app-ns1'',
       CallWriteFile ''/etc/tls/tls.crt'' ''CERT'' 420,
       CallDeleteCSR ''app-ns1''],
      Exit 0)"
  by (simp add: main_def beforeIPs_def afterIPs_def startup_def preflight_def generateKey_def gatherLabels_def
      gatherIPs_def invalidIP_def To4_def To16_def v4InV6Prefix_def buildRequest_def
      certificateRequestTemplate_def gatherDNSNames_def defaultDNSNames_def subjectField_def
      requestCertificate_def signingRequest_def certificateSigningRequestName_def deliver_def
      storeSecret_def approvedStatus_def numeral_2_eq_2 podDomainName_def
      appConfig_def defaultConfig_def appEnv_def Let_def)

subsection \<open>The secret preflight gate\<close>

lemma missingFile_None_iff: "missingFile files secretData = None \<longleftrightarrow> set files \<subseteq> dom secretData"
  by (induction files) (auto split: option.splits)

lemma secretAttempts_Suc:
  "secretAttempts cfg (Suc k)
     = [CallGetSecret (secretName cfg) (namespace cfg), CallSleep 5] @ secretAttempts cfg k"
  by (simp add: secretAttempts_def)

lemma secretLoop_skip:
  "(\<And>j. j < k \<Longrightarrow> GetSecret env (i + j) = None) \<Longrightarrow>
     secretLoop (k + fuel) cfg env i
       = after (secretAttempts cfg k) (secretLoop fuel cfg env (i + k))"
proof (induction k arbitrary: i)
  case 0
  show ?case by (simp add: secretAttempts_def after_eq)
next
  case (Suc k)
  have first: "GetSecret env i = None" using Suc.prems [of 0] by simp
  have rest: "\<And>j. j < k \<Longrightarrow> GetSecret env (Suc i + j) = None"
    using Suc.prems [of "Suc _"] by simp
  show ?case
    using first Suc.IH [of "Suc i"] rest
    by (simp add: after_after secretAttempts_Suc)
qed

lemma secretLoop_found:
  assumes "\<And>j. j < k \<Longrightarrow> GetSecret env j = None" and "GetSecret env k = Some ks"
  shows "secretLoop (Suc k + extra) cfg env 0
           = (secretAttempts cfg k @ [CallGetSecret (secretName cfg) (namespace cfg)],
              if set tlsFiles \<subseteq> dom (Data ks) then Inl (Exit 0) else Inr ks)"
proof -
  have "secretLoop (k + Suc extra) cfg env 0
          = after (secretAttempts cfg k) (secretLoop (Suc extra) cfg env (0 + k))"
    using secretLoop_skip [of k env 0 "Suc extra" cfg] assms(1) by simp
  moreover have "secretLoop (Suc extra) cfg env k
          = ([CallGetSecret (secretName cfg) (namespace cfg)],
             if set tlsFiles \<subseteq> dom (Data ks) then Inl (Exit 0) else Inr ks)"
    using assms(2) missingFile_None_iff [of tlsFiles "Data ks"]
    by (auto split: option.splits)
  ultimately show ?thesis by simp
qed

lemma preflight_short_circuit:
  assumes "NewInClusterClient env" and "secretName cfg \<noteq> []" and "certDir cfg = []"
    and "\<And>j. j < k \<Longrightarrow> GetSecret env j = None" and "GetSecret env k = Some ks"
    and "set tlsFiles \<subseteq> dom (Data ks)"
  shows "main (Suc k + extra) cfg env
           = (secretAttempts cfg k @ [CallGetSecret (secretName cfg) (namespace cfg)], Exit 0)"
proof -
  have "secretLoop (Suc k + extra) cfg env 0
          = (secretAttempts cfg k @ [CallGetSecret (secretName cfg) (namespace cfg)], Inl (Exit 0))"
    using secretLoop_found [of k env ks extra cfg] assms(4-6) by simp
  then show ?thesis
    using assms(1-3) by (simp add: main_def beforeIPs_def startup_def preflight_def)
qed

lemma kindOf_secretAttempts: "kindOf ` set (secretAttempts cfg k) \<subseteq> {SecretFetch, Pause}"
  by (induction k) (auto simp: secretAttempts_Suc secretAttempts_def)

text \<open>Claim C4: in secret-store mode, once a fetched secret has non-empty values under
  \<open>tls.key\<close>, \<open>tls.crt\<close> and \<open>ca.crt\<close>, the run ends right after that fetch with
  exit code 0; all it has done is fetch the secret and pause between fetches: no key was
  generated and no signing-request call was made.\<close>

theorem complete_secret_exits:
  "NewInClusterClient env \<and> secretName cfg \<noteq> [] \<and> certDir cfg = []
   \<and> (\<forall>j<k. GetSecret env j = None) \<and> GetSecret env k = Some ks
   \<and> Data ks ''tls.key'' = Some key \<and> key \<noteq> []
   \<and> Data ks ''tls.crt'' = Some crt \<and> crt \<noteq> []
   \<and> Data ks ''ca.crt'' = Some ca \<and> ca \<noteq> []
   \<longrightarrow> snd (main (Suc k + extra) cfg env) = Exit 0
     \<and> last (fst (main (Suc k + extra) cfg env)) = CallGetSecret (secretName cfg) (namespace cfg)
     \<and> kindOf ` set (fst (main (Suc k + extra) cfg env)) \<subseteq> {SecretFetch, Pause}
     \<and> KeyGeneration \<notin> kindOf ` set (fst (main (Suc k + extra) cfg env))
     \<and> SigningRequestCall \<notin> kindOf ` set (fst (main (Suc k + extra) cfg env))"
proof (intro impI)
  assume a: "NewInClusterClient env \<and> secretName cfg \<noteq> [] \<and> certDir cfg = []
   \<and> (\<forall>j<k. GetSecret env j = None) \<and> GetSecret env k = Some ks
   \<and> Data ks ''tls.key'' = Some key \<and> key \<noteq> []
   \<and> Data ks ''tls.crt'' = Some crt \<and> crt \<noteq> []
   \<and> Data ks ''ca.crt'' = Some ca \<and> ca \<noteq> []"
  then have "set tlsFiles \<subseteq> dom (Data ks)" by (auto simp: tlsFiles_def)
  with a have m: "main (Suc k + extra) cfg env
           = (secretAttempts cfg k @ [CallGetSecret (secretName cfg) (namespace cfg)], Exit 0)"
    using preflight_short_circuit [of env cfg k ks extra] by blast
  have sub: "kindOf ` set (fst (main (Suc k + extra) cfg env)) \<subseteq> {SecretFetch, Pause}"
    unfolding m using kindOf_secretAttempts [of cfg k] by auto
  from sub have "KeyGeneration \<notin> kindOf ` set (fst (main (Suc k + extra) cfg env))"
    and "SigningRequestCall \<notin> kindOf ` set (fst (main (Suc k + extra) cfg env))"
    by auto
  with sub show "snd (main (Suc k + extra) cfg env) = Exit 0
     \<and> last (fst (main (Suc k + extra) cfg env)) = CallGetSecret (secretName cfg) (namespace cfg)
     \<and> kindOf ` set (fst (main (Suc k + extra) cfg env)) \<subseteq> {SecretFetch, Pause}
     \<and> KeyGeneration \<notin> kindOf ` set (fst (main (Suc k + extra) cfg env))
     \<and> SigningRequestCall \<notin> kindOf ` set (fst (main (Suc k + extra) cfg env))"
    unfolding m by simp
qed

theorem complete_secret_exits_witness:
  "GetSecret fullSecretEnv 1 = Some fullSecret
   \<and> Data fullSecret ''tls.key'' = Some ''K'' \<and> Data fullSecret ''tls.crt'' = Some ''C''
   \<and> Data fullSecret ''ca.crt'' = Some ''A''
   \<and> snd (main 2 secretConfig fullSecretEnv) = Exit 0
   \<and> KeyGeneration \<notin> kindOf ` set (fst (main 2 secretConfig fullSecretEnv))
   \<and> SigningRequestCall \<notin> kindOf ` set (fst (main 2 secretConfig fullSecretEnv))"
  using complete_secret_exits [of fullSecretEnv secretConfig 1 fullSecret "''K''" "''C''" "''A''" 0]
  by (simp add: fullSecretEnv_def secretConfig_def appEnv_def appConfig_def defaultConfig_def
      fullSecret_def emptySecret_def numeral_2_eq_2)

text \<open>Claim C9: the preflight gate looks only at whether the three keys are present in
  the secret's data, never at the values: a fetched secret with the keys \<open>tls.key\<close>,
  \<open>tls.crt\<close> and \<open>ca.crt\<close> ends the run with exit code 0 right after the fetch, whatever
  the values are, the empty byte string included.\<close>

theorem presence_only_gate:
  "(missingFile tlsFiles secretData = None
      \<longleftrightarrow> {''tls.key'', ''tls.crt'', ''ca.crt''} \<subseteq> dom secretData)
   \<and> (NewInClusterClient env \<and> secretName cfg \<noteq> [] \<and> certDir cfg = []
       \<and> (\<forall>j<k. GetSecret env j = None) \<and> GetSecret env k = Some ks
       \<and> {''tls.key'', ''tls.crt'', ''ca.crt''} \<subseteq> dom (Data ks)
       \<longrightarrow> main (Suc k + extra) cfg env
             = (secretAttempts cfg k @ [CallGetSecret (secretName cfg) (namespace cfg)], Exit 0))
   \<and> (NewInClusterClient env \<and> secretName cfg \<noteq> [] \<and> certDir cfg = []
       \<and> (\<forall>j<k. GetSecret env j = None) \<and> GetSecret env k = Some ks
       \<and> Data ks ''tls.key'' = Some [] \<and> Data ks ''tls.crt'' = Some [] \<and> Data ks ''ca.crt'' = Some []
       \<longrightarrow> main (Suc k + extra) cfg env
             = (secretAttempts cfg k @ [CallGetSecret (secretName cfg) (namespace cfg)], Exit 0))"
proof -
  have files: "set tlsFiles = {''tls.key'', ''tls.crt'', ''ca.crt''}"
    by (simp add: tlsFiles_def)
  have a: "missingFile tlsFiles secretData = None
      \<longleftrightarrow> {''tls.key'', ''tls.crt'', ''ca.crt''} \<subseteq> dom secretData"
    using missingFile_None_iff [of tlsFiles secretData] files by simp
  have b: "main (Suc k + extra) cfg env
             = (secretAttempts cfg k @ [CallGetSecret (secretName cfg) (namespace cfg)], Exit 0)"
    if "NewInClusterClient env \<and> secretName cfg \<noteq> [] \<and> certDir cfg = []
       \<and> (\<forall>j<k. GetSecret env j = None) \<and> GetSecret env k = Some ks
       \<and> {''tls.key'', ''tls.crt'', ''ca.crt''} \<subseteq> dom (Data ks)"
    using that preflight_short_circuit [of env cfg k ks extra] files by simp
  have c: "main (Suc k + extra) cfg env
             = (secretAttempts cfg k @ [CallGetSecret (secretName cfg) (namespace cfg)], Exit 0)"
    if "NewInClusterClient env \<and> secretName cfg \<noteq> [] \<and> certDir cfg = []
       \<and> (\<forall>j<k. GetSecret env j = None) \<and> GetSecret env k = Some ks
       \<and> Data ks ''tls.key'' = Some [] \<and> Data ks ''tls.crt'' = Some [] \<and> Data ks ''ca.crt'' = Some []"
  proof -
    from that have "{''tls.key'', ''tls.crt'', ''ca.crt''} \<subseteq> dom (Data ks)" by auto
    with that b show ?thesis by blast
  qed
  from a b c show ?thesis by blast
qed

theorem presence_only_gate_witness:
  "GetSecret blankSecretEnv 1 = Some blankSecret
   \<and> Data blankSecret ''tls.key'' = Some [] \<and> Data blankSecret ''tls.crt'' = Some []
   \<and> Data blankSecret ''ca.crt'' = Some []
   \<and> main 2 secretConfig blankSecretEnv
      = ([CallGetSecret ''tls'' ''ns1'', CallSleep 5, CallGetSecret ''tls'' ''ns1''], Exit 0)"
  using presence_only_gate [of "Data blankSecret" blankSecretEnv secretConfig 1 blankSecret 0]
  by (simp add: blankSecretEnv_def secretConfig_def appEnv_def appConfig_def defaultConfig_def
      blankSecret_def emptySecret_def secretAttempts_def numeral_2_eq_2)

subsection \<open>Which stage causes which events\<close>

lemma fst_andThen:
  "fst (andThen r f) = fst r @ (case snd r of Inl out \<Rightarrow> [] | Inr a \<Rightarrow> fst (f a))"
  by (cases r; cases "snd r") auto

lemma snd_andThen:
  "snd (andThen r f) = (case snd r of Inl out \<Rightarrow> Inl out | Inr a \<Rightarrow> snd (f a))"
  by (cases r; cases "snd r") auto

lemma in_andThen:
  "e \<in> set (fst (andThen r f))
     \<longleftrightarrow> e \<in> set (fst r) \<or> (\<exists>a. snd r = Inr a \<and> e \<in> set (fst (f a)))"
  by (auto simp: fst_andThen split: sum.splits)

lemma fst_startup: "fst (startup cfg env) = []"
  by (simp add: startup_def)

lemma kinds_secretLoop: "kindOf ` set (fst (secretLoop fuel cfg env i)) \<subseteq> {SecretFetch, Pause}"
  by (induction fuel arbitrary: i) (auto split: option.splits)

lemma kinds_preflight: "kindOf ` set (fst (preflight fuel cfg env)) \<subseteq> {SecretFetch, Pause}"
  using kinds_secretLoop [of fuel cfg env 0]
  by (auto simp: preflight_def fst_andThen split: sum.splits)

lemma kinds_generateKey:
  "kindOf ` set (fst (generateKey cfg env dir)) \<subseteq> {KeyGeneration, FileWrite}"
  by (auto simp: generateKey_def Let_def split: option.splits if_splits)

lemma generateKey_Inr:
  "snd (generateKey cfg env dir) = Inr kp \<Longrightarrow>
     CallGenerateKey (keysize cfg) \<in> set (fst (generateKey cfg env dir))"
  by (auto simp: generateKey_def Let_def split: option.splits if_splits)

lemma fst_gatherLabels: "fst (gatherLabels cfg) = []"
  by (simp add: gatherLabels_def split: sum.splits)

lemma fst_gatherIPs: "fst (gatherIPs cfg env) = []"
  by (simp add: gatherIPs_def split: sum.splits)

lemma kinds_buildRequest:
  "kindOf ` set (fst (buildRequest cfg env dir key dnsNames ips)) \<subseteq> {RequestSigning, FileWrite}"
  by (auto simp: buildRequest_def Let_def split: sum.splits option.splits if_splits)

lemma kinds_requestCertificate:
  "kindOf ` set (fst (requestCertificate fuel env csr)) \<subseteq> {SigningRequestCall, Pause}"
  using poll_events [of fuel "GetCertificateSigningRequest env" "csrName csr" 1]
  by (auto simp: requestCertificate_def split: option.splits if_splits)

text \<open>What a completed run of the stages before the IP literals consists of.\<close>

lemma beforeIPs_Inr:
  assumes "snd (beforeIPs fuel cfg env) = Inr st"
  shows "\<exists>dir sec key pemKeyBytes labelsMap.
           st = (dir, sec, key, pemKeyBytes, labelsMap)
         \<and> snd (startup cfg env) = Inr dir
         \<and> snd (preflight fuel cfg env) = Inr sec
         \<and> snd (generateKey cfg env dir) = Inr (key, pemKeyBytes)
         \<and> snd (gatherLabels cfg) = Inr labelsMap
         \<and> fst (beforeIPs fuel cfg env)
             = fst (preflight fuel cfg env) @ fst (generateKey cfg env dir)"
  using assms
  by (auto simp: beforeIPs_def snd_andThen fst_andThen fst_startup fst_gatherLabels
      split: sum.splits prod.splits)

lemma kinds_beforeIPs:
  "kindOf ` set (fst (beforeIPs fuel cfg env)) \<subseteq> {SecretFetch, Pause, KeyGeneration, FileWrite}"
proof
  fix x assume "x \<in> kindOf ` set (fst (beforeIPs fuel cfg env))"
  then obtain e where e: "x = kindOf e" "e \<in> set (fst (beforeIPs fuel cfg env))" by blast
  from e(2) have "e \<in> set (fst (preflight fuel cfg env))
                  \<or> (\<exists>dir. e \<in> set (fst (generateKey cfg env dir)))"
    by (auto simp: beforeIPs_def in_andThen fst_startup fst_gatherLabels split: prod.splits)
  then show "x \<in> {SecretFetch, Pause, KeyGeneration, FileWrite}"
    using kinds_preflight [of fuel cfg env] kinds_generateKey [of cfg env] e(1) by blast
qed

lemma main_eq:
  "main fuel cfg env =
     (case snd (beforeIPs fuel cfg env) of
        Inl out \<Rightarrow> (fst (beforeIPs fuel cfg env), out)
      | Inr st \<Rightarrow>
          (case snd (gatherIPs cfg env) of
             Inl out \<Rightarrow> (fst (beforeIPs fuel cfg env), out)
           | Inr ips \<Rightarrow>
               (fst (beforeIPs fuel cfg env) @ fst (afterIPs fuel cfg env st ips),
                case snd (afterIPs fuel cfg env st ips) of Inl out \<Rightarrow> out | Inr out \<Rightarrow> out)))"
proof -
  obtain t x where b: "beforeIPs fuel cfg env = (t, x)" by (cases "beforeIPs fuel cfg env")
  obtain u y where g: "gatherIPs cfg env = (u, y)" by (cases "gatherIPs cfg env")
  have u: "u = []" using fst_gatherIPs [of cfg env] g by simp
  show ?thesis
  proof (cases x)
    case (Inl out)
    with b show ?thesis by (simp add: main_def)
  next
    case (Inr st)
    show ?thesis
    proof (cases y)
      case (Inl out)
      with b g u Inr show ?thesis by (simp add: main_def)
    next
      case ips: (Inr ips)
      obtain v z where a: "afterIPs fuel cfg env st ips = (v, z)"
        by (cases "afterIPs fuel cfg env st ips")
      with b g u Inr ips show ?thesis by (cases z) (simp_all add: main_def)
    qed
  qed
qed

subsection \<open>IP validation\<close>

lemma invalidIP_Nil: "invalidIP []"
  by (simp add: invalidIP_def To4_def To16_def)

lemma serviceIPLoop_invalid:
  "\<exists>s \<in> set ss. s \<noteq> [] \<and> invalidIP (ParseIP env s) \<Longrightarrow>
     serviceIPLoop env ss ipaddresses = Inl InvalidServiceIP"
  by (induction ss arbitrary: ipaddresses) auto

lemma gatherIPs_invalid:
  assumes "invalidIP (ParseIP env (podIP cfg))
           \<or> (\<exists>s \<in> set (Split (serviceIPs cfg) (CHR '','')). s \<noteq> [] \<and> invalidIP (ParseIP env s))"
  shows "gatherIPs cfg env
           = ([], Inl (Fatal (if invalidIP (ParseIP env (podIP cfg)) then InvalidPodIP
                              else InvalidServiceIP)))"
proof (cases "invalidIP (ParseIP env (podIP cfg))")
  case True
  then show ?thesis by (simp add: gatherIPs_def)
next
  case False
  with assms have "serviceIPLoop env (Split (serviceIPs cfg) (CHR '','')) [ParseIP env (podIP cfg)]
                     = Inl InvalidServiceIP"
    using serviceIPLoop_invalid by blast
  with False show ?thesis by (simp add: gatherIPs_def)
qed

text \<open>Claim C1, as the code has it: when the pod-IP literal or a non-empty service-IP
  literal fails to parse, IP validation ends the run with a fatal error, so that no
  certificate request is signed, no signing-request call is made and no secret is
  updated. The validation comes after the secret preflight, key generation, the write of
  \<open>tls.key\<close> and label parsing: a run that gets as far as the validation has generated
  the key, and a run that ends earlier ends as those stages end it.\<close>

theorem invalid_ip_aborts_before_request:
  "(ParseIP env (podIP cfg) = []
    \<or> (\<exists>s \<in> set (Split (serviceIPs cfg) (CHR '','')). s \<noteq> [] \<and> ParseIP env s = []))
   \<longrightarrow>
     kindOf ` set (fst (main fuel cfg env)) \<subseteq> {SecretFetch, Pause, KeyGeneration, FileWrite}
   \<and> RequestSigning \<notin> kindOf ` set (fst (main fuel cfg env))
   \<and> SigningRequestCall \<notin> kindOf ` set (fst (main fuel cfg env))
   \<and> SecretUpdate \<notin> kindOf ` set (fst (main fuel cfg env))
   \<and> (\<forall>st. snd (beforeIPs fuel cfg env) = Inr st \<longrightarrow>
          main fuel cfg env
            = (fst (beforeIPs fuel cfg env),
               Fatal (if invalidIP (ParseIP env (podIP cfg)) then InvalidPodIP
                      else InvalidServiceIP))
          \<and> CallGenerateKey (keysize cfg) \<in> set (fst (main fuel cfg env)))
   \<and> (\<forall>out. snd (beforeIPs fuel cfg env) = Inl out \<longrightarrow>
          main fuel cfg env = (fst (beforeIPs fuel cfg env), out))"
proof (intro impI)
  assume "ParseIP env (podIP cfg) = []
    \<or> (\<exists>s \<in> set (Split (serviceIPs cfg) (CHR '','')). s \<noteq> [] \<and> ParseIP env s = [])"
  then have "invalidIP (ParseIP env (podIP cfg))
           \<or> (\<exists>s \<in> set (Split (serviceIPs cfg) (CHR '','')). s \<noteq> [] \<and> invalidIP (ParseIP env s))"
    using invalidIP_Nil by metis
  then have g: "gatherIPs cfg env
           = ([], Inl (Fatal (if invalidIP (ParseIP env (podIP cfg)) then InvalidPodIP
                              else InvalidServiceIP)))"
    by (rule gatherIPs_invalid)
  have tr: "fst (main fuel cfg env) = fst (beforeIPs fuel cfg env)"
    by (simp add: main_eq [of fuel cfg env] g split: sum.splits)
  have sub: "kindOf ` set (fst (main fuel cfg env))
               \<subseteq> {SecretFetch, Pause, KeyGeneration, FileWrite}"
    unfolding tr by (rule kinds_beforeIPs)
  have reached: "main fuel cfg env
            = (fst (beforeIPs fuel cfg env),
               Fatal (if invalidIP (ParseIP env (podIP cfg)) then InvalidPodIP
                      else InvalidServiceIP))
          \<and> CallGenerateKey (keysize cfg) \<in> set (fst (main fuel cfg env))"
    if st: "snd (beforeIPs fuel cfg env) = Inr st" for st
  proof -
    from beforeIPs_Inr [OF st] obtain dir kp where
      k: "snd (generateKey cfg env dir) = Inr kp"
      and t: "fst (beforeIPs fuel cfg env)
                = fst (preflight fuel cfg env) @ fst (generateKey cfg env dir)"
      by blast
    have "CallGenerateKey (keysize cfg) \<in> set (fst (main fuel cfg env))"
      unfolding tr t using generateKey_Inr [OF k] by simp
    moreover have "main fuel cfg env
            = (fst (beforeIPs fuel cfg env),
               Fatal (if invalidIP (ParseIP env (podIP cfg)) then InvalidPodIP
                      else InvalidServiceIP))"
      by (simp add: main_eq [of fuel cfg env] g st)
    ultimately show ?thesis by blast
  qed
  have early: "main fuel cfg env = (fst (beforeIPs fuel cfg env), out)"
    if "snd (beforeIPs fuel cfg env) = Inl out" for out
    using that by (simp add: main_eq [of fuel cfg env])
  from sub have no: "RequestSigning \<notin> kindOf ` set (fst (main fuel cfg env))"
    "SigningRequestCall \<notin> kindOf ` set (fst (main fuel cfg env))"
    "SecretUpdate \<notin> kindOf ` set (fst (main fuel cfg env))"
    by auto
  from sub no reached early
  show "kindOf ` set (fst (main fuel cfg env)) \<subseteq> {SecretFetch, Pause, KeyGeneration, FileWrite}
   \<and> RequestSigning \<notin> kindOf ` set (fst (main fuel cfg env))
   \<and> SigningRequestCall \<notin> kindOf ` set (fst (main fuel cfg env))
   \<and> SecretUpdate \<notin> kindOf ` set (fst (main fuel cfg env))
   \<and> (\<forall>st. snd (beforeIPs fuel cfg env) = Inr st \<longrightarrow>
          main fuel cfg env
            = (fst (beforeIPs fuel cfg env),
               Fatal (if invalidIP (ParseIP env (podIP cfg)) then InvalidPodIP
                      else InvalidServiceIP))
          \<and> CallGenerateKey (keysize cfg) \<in> set (fst (main fuel cfg env)))
   \<and> (\<forall>out. snd (beforeIPs fuel cfg env) = Inl out \<longrightarrow>
          main fuel cfg env = (fst (beforeIPs fuel cfg env), out))"
    by blast
qed

lemma beforeIPs_badPodIP:
  "beforeIPs fuel badPodIPConfig appEnv
     = ([CallGenerateKey 2048, CallWriteFile ''/etc/tls/tls.key'' ''RSA PRIVATE KEY:pkcs1'' 420],
        Inr (''/etc/tls'', None, 1, ''RSA PRIVATE KEY:pkcs1'', Map.empty))"
  by (simp add: beforeIPs_def startup_def preflight_def generateKey_def gatherLabels_def
      badPodIPConfig_def appConfig_def defaultConfig_def appEnv_def Let_def)

theorem invalid_ip_aborts_before_request_witness:
  "ParseIP appEnv (podIP badPodIPConfig) = []
   \<and> main 1 badPodIPConfig appEnv
       = ([CallGenerateKey 2048, CallWriteFile ''/etc/tls/tls.key'' ''RSA PRIVATE KEY:pkcs1'' 420],
          Fatal InvalidPodIP)
   \<and> SigningRequestCall \<notin> kindOf ` set (fst (main 1 badPodIPConfig appEnv))"
proof -
  have bad: "ParseIP appEnv (podIP badPodIPConfig) = []"
    by (simp add: appEnv_def appConfig_def badPodIPConfig_def)
  from invalid_ip_aborts_before_request [of appEnv badPodIPConfig 1] bad
    beforeIPs_badPodIP [of 1]
  show ?thesis by (simp add: invalidIP_Nil)
qed

text \<open>Claim C1 as stated fails: with a pod IP that does not parse the key is generated
  (and written) before the run is aborted, and in secret-store mode with a service IP
  that does not parse the secret has been fetched from the control plane before.\<close>

theorem key_generated_before_ip_validation:
  "ParseIP appEnv (podIP badPodIPConfig) = []
   \<and> snd (main 1 badPodIPConfig appEnv) = Fatal InvalidPodIP
   \<and> CallGenerateKey 2048 \<in> set (fst (main 1 badPodIPConfig appEnv))
   \<and> ParseIP emptySecretEnv ''x'' = []
   \<and> main 2 badServiceIPConfig emptySecretEnv
       = ([CallGetSecret ''tls'' ''ns1'', CallSleep 5, CallGetSecret ''tls'' ''ns1'',
           CallGenerateKey 2048], Fatal InvalidServiceIP)"
proof -
  have a: "main 1 badPodIPConfig appEnv
     = ([CallGenerateKey 2048, CallWriteFile ''/etc/tls/tls.key'' ''RSA PRIVATE KEY:pkcs1'' 420],
        Fatal InvalidPodIP)"
  proof -
    have "gatherIPs badPodIPConfig appEnv = ([], Inl (Fatal InvalidPodIP))"
      by (simp add: gatherIPs_def invalidIP_def To4_def To16_def badPodIPConfig_def
          appConfig_def appEnv_def)
    then show ?thesis by (simp add: main_def beforeIPs_badPodIP)
  qed
  have b: "main 2 badServiceIPConfig emptySecretEnv
       = ([CallGetSecret ''tls'' ''ns1'', CallSleep 5, CallGetSecret ''tls'' ''ns1'',
           CallGenerateKey 2048], Fatal InvalidServiceIP)"
    by (simp add: main_def beforeIPs_def startup_def preflight_def generateKey_def
        gatherLabels_def gatherIPs_def invalidIP_def To4_def To16_def v4InV6Prefix_def
        tlsFiles_def badServiceIPConfig_def emptySecretEnv_def appConfig_def defaultConfig_def
        appEnv_def emptySecret_def Let_def numeral_2_eq_2)
  have c: "ParseIP appEnv (podIP badPodIPConfig) = []" "ParseIP emptySecretEnv ''x'' = []"
    by (simp_all add: appEnv_def appConfig_def badPodIPConfig_def emptySecretEnv_def)
  from a b c show ?thesis by simp
qed

subsection \<open>The secret update\<close>

lemma secretLoop_Inr:
  "snd (secretLoop fuel cfg env i) = Inr ks \<Longrightarrow>
     \<exists>k<fuel. (\<forall>j<k. GetSecret env (i + j) = None) \<and> GetSecret env (i + k) = Some ks
             \<and> missingFile tlsFiles (Data ks) \<noteq> None"
proof (induction fuel arbitrary: i)
  case 0
  then show ?case by simp
next
  case (Suc fuel)
  show ?case
  proof (cases "GetSecret env i")
    case None
    with Suc.prems have "snd (secretLoop fuel cfg env (Suc i)) = Inr ks" by simp
    from Suc.IH [OF this] obtain k where k: "k < fuel"
      "\<forall>j<k. GetSecret env (Suc i + j) = None" "GetSecret env (Suc i + k) = Some ks"
      "missingFile tlsFiles (Data ks) \<noteq> None" by blast
    have "\<forall>j<Suc k. GetSecret env (i + j) = None"
      using None k(2) by (auto simp: less_Suc_eq_0_disj)
    with k(1,3,4) show ?thesis by (intro exI [of _ "Suc k"]) simp
  next
    case (Some found)
    with Suc.prems have "found = ks \<and> missingFile tlsFiles (Data ks) \<noteq> None"
      by (auto split: option.splits)
    with Some show ?thesis by (intro exI [of _ 0]) simp
  qed
qed

lemma preflight_Inr_Some:
  "snd (preflight fuel cfg env) = Inr (Some ks) \<Longrightarrow>
     secretName cfg \<noteq> [] \<and> snd (secretLoop fuel cfg env 0) = Inr ks"
  by (auto simp: preflight_def snd_andThen split: if_splits sum.splits)

lemma update_in_storeSecret:
  "CallUpdateSecret s' \<in> set (fst (storeSecret env sec pemKeyBytes certificate)) \<Longrightarrow>
     \<exists>ks k8sCrt. sec = Some ks \<and> ReadFile env caFile = Some k8sCrt
       \<and> s' = updatedSecret ks pemKeyBytes certificate k8sCrt"
  by (auto simp: storeSecret_def split: option.splits)

lemma update_in_deliver:
  "CallUpdateSecret s' \<in> set (fst (deliver cfg env dir sec pemKeyBytes certificate)) \<Longrightarrow>
     \<exists>ks k8sCrt. sec = Some ks \<and> ReadFile env caFile = Some k8sCrt
       \<and> s' = updatedSecret ks pemKeyBytes certificate k8sCrt"
  using update_in_storeSecret [of s' env sec pemKeyBytes certificate]
  by (auto simp: deliver_def in_andThen Let_def split: if_splits)

lemma update_in_afterIPs:
  assumes "CallUpdateSecret s' \<in> set (fst (afterIPs fuel cfg env (dir, sec, key, pemKeyBytes, labelsMap) ips))"
  shows "\<exists>ks k8sCrt certificate. sec = Some ks \<and> ReadFile env caFile = Some k8sCrt
           \<and> s' = updatedSecret ks pemKeyBytes certificate k8sCrt"
proof -
  have b: "CallUpdateSecret s' \<notin> set (fst (buildRequest cfg env dir key dnsNames ips))"
    for dnsNames
    using kinds_buildRequest [of cfg env dir key dnsNames ips] by force
  have r: "CallUpdateSecret s' \<notin> set (fst (requestCertificate fuel env csr))" for csr
    using kinds_requestCertificate [of fuel env csr] by force
  from assms b r obtain certificate where
    "CallUpdateSecret s' \<in> set (fst (deliver cfg env dir sec pemKeyBytes certificate))"
    by (auto simp: afterIPs_def in_andThen)
  from update_in_deliver [OF this] show ?thesis by blast
qed

lemma update_in_main:
  assumes "CallUpdateSecret s' \<in> set (fst (main fuel cfg env))"
  shows "\<exists>st ips. snd (beforeIPs fuel cfg env) = Inr st
           \<and> CallUpdateSecret s' \<in> set (fst (afterIPs fuel cfg env st ips))"
proof -
  have b: "CallUpdateSecret s' \<notin> set (fst (beforeIPs fuel cfg env))"
    using kinds_beforeIPs [of fuel cfg env] by force
  from assms b show ?thesis
    by (auto simp: main_eq [of fuel cfg env] split: sum.splits)
qed

lemma updatedSecret_frame:
  "updatedSecret ks pemKeyBytes certificate k8sCrt
     = ks\<lparr> StringData := StringData (updatedSecret ks pemKeyBytes certificate k8sCrt) \<rparr>
   \<and> Metadata (updatedSecret ks pemKeyBytes certificate k8sCrt) = Metadata ks
   \<and> Data (updatedSecret ks pemKeyBytes certificate k8sCrt) = Data ks
   \<and> secretType (updatedSecret ks pemKeyBytes certificate k8sCrt) = secretType ks
   \<and> secret.more (updatedSecret ks pemKeyBytes certificate k8sCrt) = secret.more ks
   \<and> dom (StringData (updatedSecret ks pemKeyBytes certificate k8sCrt))
       = {''tls.key'', ''tls.crt'', ''ca.crt''}
   \<and> StringData (updatedSecret ks pemKeyBytes certificate k8sCrt) ''tls.key'' = Some pemKeyBytes
   \<and> StringData (updatedSecret ks pemKeyBytes certificate k8sCrt) ''tls.crt'' = Some certificate
   \<and> StringData (updatedSecret ks pemKeyBytes certificate k8sCrt) ''ca.crt'' = Some k8sCrt"
  by (auto simp: updatedSecret_def)

text \<open>Claim C10: in secret-store mode the secret handed to the update is the secret
  the preflight gate kept (the first one fetched, which lacked one of the three keys)
  with only its \<open>StringData\<close> replaced, by a map with exactly the three entries
  \<open>tls.key\<close>, \<open>tls.crt\<close> and \<open>ca.crt\<close>; its metadata, its data map, its type and
  every other field are those of the fetched secret.\<close>

theorem update_changes_only_string_data:
  "CallUpdateSecret s' \<in> set (fst (main fuel cfg env)) \<longrightarrow>
     (\<exists>k ks. k < fuel \<and> (\<forall>j<k. GetSecret env j = None) \<and> GetSecret env k = Some ks
        \<and> s' = ks\<lparr> StringData := StringData s' \<rparr>
        \<and> Metadata s' = Metadata ks \<and> Data s' = Data ks \<and> secretType s' = secretType ks
        \<and> secret.more s' = secret.more ks
        \<and> dom (StringData s') = {''tls.key'', ''tls.crt'', ''ca.crt''}
        \<and> StringData s' ''ca.crt'' = ReadFile env caFile)"
proof
  assume "CallUpdateSecret s' \<in> set (fst (main fuel cfg env))"
  from update_in_main [OF this] obtain st ips where
    st: "snd (beforeIPs fuel cfg env) = Inr st"
    and a: "CallUpdateSecret s' \<in> set (fst (afterIPs fuel cfg env st ips))" by blast
  from beforeIPs_Inr [OF st] obtain dir sec key pemKeyBytes labelsMap where
    eq: "st = (dir, sec, key, pemKeyBytes, labelsMap)"
    and p: "snd (preflight fuel cfg env) = Inr sec" by blast
  from update_in_afterIPs [OF a [unfolded eq]] obtain ks k8sCrt certificate where
    sec: "sec = Some ks" and ca: "ReadFile env caFile = Some k8sCrt"
    and s': "s' = updatedSecret ks pemKeyBytes certificate k8sCrt" by blast
  from preflight_Inr_Some [OF p [unfolded sec]]
  have "snd (secretLoop fuel cfg env 0) = Inr ks" by blast
  from secretLoop_Inr [OF this] obtain k where
    k: "k < fuel" "\<forall>j<k. GetSecret env j = None" "GetSecret env k = Some ks" by auto
  from updatedSecret_frame [of ks pemKeyBytes certificate k8sCrt] k ca
  show "\<exists>k ks. k < fuel \<and> (\<forall>j<k. GetSecret env j = None) \<and> GetSecret env k = Some ks
        \<and> s' = ks\<lparr> StringData := StringData s' \<rparr>
        \<and> Metadata s' = Metadata ks \<and> Data s' = Data ks \<and> secretType s' = secretType ks
        \<and> secret.more s' = secret.more ks
        \<and> dom (StringData s') = {''tls.key'', ''tls.crt'', ''ca.crt''}
        \<and> StringData s' ''ca.crt'' = ReadFile env caFile"
    unfolding s' by (intro exI [of _ k] exI [of _ ks]) simp
qed

lemma main_emptySecret:
  "main 2 secretConfig emptySecretEnv =
     ([CallGetSecret ''tls'' ''ns1'', CallSleep 5, CallGetSecret ''tls'' ''ns1'',
       CallGenerateKey 2048,
       CallCreateCertificateRequest
         \<lparr> CommonName = ''10-0-0-5.ns1.pod.cluster.local'', Country = [], Organization = [],
           OrganizationalUnit = [], SignatureAlgorithm = SHA256WithRSA,
           DNSNames = [''10-0-0-5.ns1.pod.cluster.local''],
           IPAddresses = [[0, 0, 0, 0, 0, 0, 0, 0, 0, 0, 255, 255, 10, 0, 0, 5]] \<rparr> 1,
       CallDeleteCSR ''app-ns1'', CallGetCSR ''app-ns1'',
       CallCreateCSR
         \<lparr> csrName = ''app-ns1'', csrLabels = Map.empty, Groups = [''system:authenticated''],
           Request = ''CERTIFICATE REQUEST:der'',
           KeyUsage = [''digital signature'', ''key encipherment'', ''server auth'',
                       ''client auth''] \<rparr>,
       CallGetCSR ''app-ns1'', CallSleep 5, CallGetCSR ''app-ns1'',
       CallDeleteCSR ''app-ns1'',
       CallReadFile caFile,
       CallUpdateSecret (updatedSecret emptySecret ''RSA PRIVATE KEY:pkcs1'' ''CERT'' ''CA'')],
      Exit 0)"
  by (simp add: main_def beforeIPs_def afterIPs_def startup_def preflight_def generateKey_def
      gatherLabels_def gatherIPs_def invalidIP_def To4_def To16_def v4InV6Prefix_def
      buildRequest_def certificateRequestTemplate_def gatherDNSNames_def defaultDNSNames_def
      subjectField_def requestCertificate_def signingRequest_def
      certificateSigningRequestName_def deliver_def storeSecret_def approvedStatus_def
      numeral_2_eq_2 podDomainName_def tlsFiles_def emptySecret_def
      secretConfig_def emptySecretEnv_def appConfig_def defaultConfig_def appEnv_def Let_def)

theorem update_changes_only_string_data_witness:
  "CallUpdateSecret (updatedSecret emptySecret ''RSA PRIVATE KEY:pkcs1'' ''CERT'' ''CA'')
     \<in> set (fst (main 2 secretConfig emptySecretEnv))
   \<and> GetSecret emptySecretEnv 0 = None \<and> GetSecret emptySecretEnv 1 = Some emptySecret
   \<and> Data (updatedSecret emptySecret ''RSA PRIVATE KEY:pkcs1'' ''CERT'' ''CA'') = Data emptySecret
   \<and> Metadata (updatedSecret emptySecret ''RSA PRIVATE KEY:pkcs1'' ''CERT'' ''CA'')
       = Metadata emptySecret
   \<and> dom (StringData (updatedSecret emptySecret ''RSA PRIVATE KEY:pkcs1'' ''CERT'' ''CA''))
       = {''tls.key'', ''tls.crt'', ''ca.crt''}"
proof -
  define s where "s = updatedSecret emptySecret ''RSA PRIVATE KEY:pkcs1'' ''CERT'' ''CA''"
  have m: "CallUpdateSecret s \<in> set (fst (main 2 secretConfig emptySecretEnv))"
    by (simp add: main_emptySecret s_def)
  have g: "GetSecret emptySecretEnv 0 = None" "GetSecret emptySecretEnv 1 = Some emptySecret"
    by (simp_all add: emptySecretEnv_def appEnv_def)
  from mp [OF update_changes_only_string_data [of s 2 secretConfig emptySecretEnv] m]
  obtain k ks where k: "k < 2" and gk: "GetSecret emptySecretEnv k = Some ks"
    and md: "Metadata s = Metadata ks" and d: "Data s = Data ks"
    and dm: "dom (StringData s) = {''tls.key'', ''tls.crt'', ''ca.crt''}"
    by (elim exE conjE)
  from k have "k = 0 \<or> k = 1" by arith
  with gk g have "ks = emptySecret" by auto
  with m g md d dm show ?thesis unfolding s_def by simp
qed

end
